theory Spec2Isabelle
  imports Main
begin

section \<open>Interview helper: the two-stage prompt chain of app.py\<close>

text \<open>
  The program asks a text-generation service for a plan in JSON, parses it (with a local
  brace-substring fallback and one model-assisted repair), stores the plan, asks the service
  for the final Markdown answer and stores that too.

  Conventions of the embedding:
  \<^item> a Python \<open>str\<close> is a \<open>string\<close>, read as the UTF-8 bytes of the text, so that
    every character outside ASCII is a run of bytes above \<open>0x7F\<close>; searching for an ASCII
    character, slicing at the positions found and concatenation agree with Python on it;
  \<^item> an exception is a value of \<open>exn\<close>, a function that can raise returns \<open>exn + 'a\<close>;
  \<^item> \<open>json.loads\<close> belongs to the standard library, not to the program: the functions
    that call it take the decoder as a parameter, and the theorems hold for every decoder.
    A reference decoder \<open>json_loads\<close> stands in for it at concrete documents;
  \<^item> the generation service, the console and the file system are explicit: a run starts from
    a service, an environment, the command-line values and the lines on standard input, and
    ends in a \<open>world\<close> holding the requests issued, the text printed and the files written.
\<close>

subsection \<open>Exceptions and values\<close>

datatype exn =
    JSONDecodeError string   \<comment> \<open>\<open>json.JSONDecodeError\<close>, with \<open>str(e)\<close>\<close>
  | EOFError                 \<comment> \<open>\<open>input()\<close> at the end of standard input\<close>
  | Error string             \<comment> \<open>any other \<open>Exception\<close>, with \<open>str(e)\<close>\<close>

fun exn_str :: "exn \<Rightarrow> string" where
  "exn_str (JSONDecodeError m) = m"
| "exn_str EOFError = []"
| "exn_str (Error m) = m"

text \<open>
  A Python \<open>float\<close> is identified by its \<open>repr\<close> (\<open>0.7\<close>, \<open>1e-05\<close>, \<open>-0.0\<close>, \<open>inf\<close>,
  \<open>nan\<close>): the program never computes with one, it passes the sampling parameters through
  and tests decoded values for truth.
\<close>

datatype pyfloat = Float_repr string

text \<open>
  The values \<open>json.loads\<close> returns. A \<open>dict\<close> is the list of its items in insertion
  order, which is the order \<open>json.dump\<close> writes them in. \<open>PNone\<close> is Python's \<open>None\<close>:
  the value of the JSON document \<open>null\<close>, and also what the parser returns as data when it
  fails.
\<close>

datatype pyval =
    PNone
  | PBool bool
  | PInt int
  | PFloat pyfloat
  | PStr string
  | PList "pyval list"
  | PDict "(string \<times> pyval) list"

text \<open>Python's truth value of an object, as \<open>if data:\<close> and \<open>not plan_data\<close> test it.\<close>

fun truthy :: "pyval \<Rightarrow> bool" where
  "truthy PNone = False"
| "truthy (PBool b) = b"
| "truthy (PInt i) = (i \<noteq> 0)"
| "truthy (PFloat (Float_repr r)) = (r \<noteq> ''0.0'' \<and> r \<noteq> ''-0.0'')"
| "truthy (PStr s) = (s \<noteq> [])"
| "truthy (PList xs) = (xs \<noteq> [])"
| "truthy (PDict kvs) = (kvs \<noteq> [])"

subsection \<open>String operations of Python used by the program\<close>

text \<open>\<open>str.find\<close> and \<open>str.rfind\<close> for a needle of one character: \<open>-1\<close> when absent.\<close>

fun find_char :: "char \<Rightarrow> string \<Rightarrow> int" where
  "find_char c [] = - 1"
| "find_char c (x # xs) =
     (if x = c then 0 else (let r = find_char c xs in if r < 0 then - 1 else r + 1))"

fun rfind_char :: "char \<Rightarrow> string \<Rightarrow> int" where
  "rfind_char c [] = - 1"
| "rfind_char c (x # xs) =
     (let r = rfind_char c xs in if 0 \<le> r then r + 1 else if x = c then 0 else - 1)"

text \<open>
  The slice \<open>s[a:b]\<close>: a negative index counts from the end, both bounds are clamped to the
  string, and the slice is empty when the upper bound does not exceed the lower.
\<close>

definition slice_index :: "nat \<Rightarrow> int \<Rightarrow> nat" where
  "slice_index n i = (if i < 0 then nat (max 0 (int n + i)) else min n (nat i))"

definition py_slice :: "string \<Rightarrow> int \<Rightarrow> int \<Rightarrow> string" where
  "py_slice s a b =
     (let lo = slice_index (length s) a; hi = slice_index (length s) b
      in take (hi - lo) (drop lo s))"

text \<open>
  \<open>str.strip()\<close> removes the characters for which \<open>str.isspace\<close> holds from both ends:
  U+0009..U+000D, U+001C..U+0020, U+0085, U+00A0, U+1680, U+2000..U+200A, U+2028, U+2029,
  U+202F, U+205F and U+3000, here in their UTF-8 encodings of one, two and three bytes.
\<close>

definition space1 :: "char \<Rightarrow> bool" where
  "space1 a = (a \<in> {CHR 0x09, CHR 0x0A, CHR 0x0B, CHR 0x0C, CHR 0x0D,
                     CHR 0x1C, CHR 0x1D, CHR 0x1E, CHR 0x1F, CHR 0x20})"

definition space2 :: "char \<Rightarrow> char \<Rightarrow> bool" where
  "space2 a b = (a = CHR 0xC2 \<and> (b = CHR 0x85 \<or> b = CHR 0xA0))"

definition space3 :: "char \<Rightarrow> char \<Rightarrow> char \<Rightarrow> bool" where
  "space3 a b c =
     ((a = CHR 0xE1 \<and> b = CHR 0x9A \<and> c = CHR 0x80) \<or>
      (a = CHR 0xE2 \<and> b = CHR 0x80 \<and>
         ((of_char c :: nat) \<in> {0x80..0x8A} \<or> c = CHR 0xA8 \<or> c = CHR 0xA9 \<or> c = CHR 0xAF)) \<or>
      (a = CHR 0xE2 \<and> b = CHR 0x81 \<and> c = CHR 0x9F) \<or>
      (a = CHR 0xE3 \<and> b = CHR 0x80 \<and> c = CHR 0x80))"

fun lstrip :: "string \<Rightarrow> string" where
  "lstrip (a # b # c # s) =
     (if space1 a then lstrip (b # c # s)
      else if space2 a b then lstrip (c # s)
      else if space3 a b c then lstrip s
      else a # b # c # s)"
| "lstrip [a, b] = (if space1 a then lstrip [b] else if space2 a b then [] else [a, b])"
| "lstrip [a] = (if space1 a then [] else [a])"
| "lstrip [] = []"

text \<open>The same from the right end, on the reversed string.\<close>

fun rstrip_rev :: "string \<Rightarrow> string" where
  "rstrip_rev (c # b # a # s) =
     (if space1 c then rstrip_rev (b # a # s)
      else if space2 b c then rstrip_rev (a # s)
      else if space3 a b c then rstrip_rev s
      else c # b # a # s)"
| "rstrip_rev [b, a] = (if space1 b then rstrip_rev [a] else if space2 a b then [] else [b, a])"
| "rstrip_rev [a] = (if space1 a then [] else [a])"
| "rstrip_rev [] = []"

definition strip :: "string \<Rightarrow> string" where
  "strip s = rev (rstrip_rev (rev (lstrip s)))"

text \<open>\<open>sep.join(lines)\<close>.\<close>

fun join :: "string \<Rightarrow> string list \<Rightarrow> string" where
  "join sep [] = []"
| "join sep [x] = x"
| "join sep (x # y # ys) = x @ sep @ join sep (y # ys)"

subsection \<open>The structured-output parser\<close>

text \<open>
  \<open>try_parse_json_once\<close>. The first component of the result lists the documents handed to
  \<open>json.loads\<close>, in order; the second is the pair \<open>(data, error_message)\<close> the function
  returns, or the exception it lets through (it catches \<open>JSONDecodeError\<close> only).
\<close>

type_synonym decoder = "string \<Rightarrow> exn + pyval"

definition try_parse_json_once ::
  "decoder \<Rightarrow> string \<Rightarrow> string list \<times> (exn + pyval \<times> string option)" where
  "try_parse_json_once loads raw_text =
     (case loads raw_text of
        Inr v \<Rightarrow> ([raw_text], Inr (v, None))
      | Inl (JSONDecodeError e1) \<Rightarrow>
          if CHR ''{'' \<in> set raw_text \<and> CHR ''}'' \<in> set raw_text then
            (let candidate =
                   py_slice raw_text (find_char CHR ''{'' raw_text) (rfind_char CHR ''}'' raw_text + 1)
             in case loads candidate of
                  Inr v \<Rightarrow> ([raw_text, candidate], Inr (v, None))
                | Inl (JSONDecodeError e2) \<Rightarrow>
                    ([raw_text, candidate],
                     Inr (PNone, Some (''JSON parsing failed (initial + substring): '' @ e2)))
                | Inl e \<Rightarrow> ([raw_text, candidate], Inl e))
          else ([raw_text], Inr (PNone, Some (''JSON parsing failed: '' @ e1)))
      | Inl e \<Rightarrow> ([raw_text], Inl e))"

subsection \<open>Serialising a value: \<open>json.dumps\<close> and \<open>json.dump\<close> with \<open>ensure_ascii=False\<close>\<close>

text \<open>\<open>str(n)\<close> for an integer.\<close>

definition digit_char :: "nat \<Rightarrow> char" where
  "digit_char d = char_of (48 + d)"

fun str_nat :: "nat \<Rightarrow> string" where
  "str_nat n = (if n < 10 then [digit_char n] else str_nat (n div 10) @ [digit_char (n mod 10)])"

declare str_nat.simps [simp del]

definition str_int :: "int \<Rightarrow> string" where
  "str_int i = (if i < 0 then CHR ''-'' # str_nat (nat (- i)) else str_nat (nat i))"

text \<open>
  \<open>encode_basestring\<close>: the text between double quotes, with the quote, the backslash and
  the control characters below U+0020 escaped. Every other character is written as it
  is, also outside ASCII, since the program passes \<open>ensure_ascii=False\<close>.
\<close>

definition hex_char :: "nat \<Rightarrow> char" where
  "hex_char d = (if d < 10 then char_of (48 + d) else char_of (87 + d))"

definition escape_char :: "char \<Rightarrow> string" where
  "escape_char c =
     (if c = CHR 0x22 then [CHR 0x5C, CHR 0x22]
      else if c = CHR 0x5C then [CHR 0x5C, CHR 0x5C]
      else if c = CHR 0x0A then [CHR 0x5C, CHR ''n'']
      else if c = CHR 0x0D then [CHR 0x5C, CHR ''r'']
      else if c = CHR 0x09 then [CHR 0x5C, CHR ''t'']
      else if c = CHR 0x08 then [CHR 0x5C, CHR ''b'']
      else if c = CHR 0x0C then [CHR 0x5C, CHR ''f'']
      else if (of_char c :: nat) < 0x20 then
        [CHR 0x5C, CHR ''u'', CHR ''0'', CHR ''0'',
         hex_char ((of_char c :: nat) div 16), hex_char ((of_char c :: nat) mod 16)]
      else [c])"

definition encode_basestring :: "string \<Rightarrow> string" where
  "encode_basestring s = CHR 0x22 # concat (map escape_char s) @ [CHR 0x22]"

text \<open>\<open>floatstr\<close> of the encoder: the three special values have JSON names of their own.\<close>

fun floatstr :: "pyfloat \<Rightarrow> string" where
  "floatstr (Float_repr r) =
     (if r = ''nan'' then ''NaN''
      else if r = ''inf'' then ''Infinity''
      else if r = ''-inf'' then ''-Infinity''
      else r)"

text \<open>
  The encoder. \<open>indent = None\<close> is \<open>json.dumps(v, ensure_ascii=False)\<close>, with the separators
  \<open>", "\<close> and \<open>": "\<close>; \<open>indent = Some k\<close> is \<open>json.dump(v, f, indent=k, ensure_ascii=False)\<close>,
  with the item separator \<open>","\<close>, every item on a line of its own, indented by \<open>k\<close> spaces
  for each level of nesting. The items of a \<open>dict\<close> are written in the order the \<open>dict\<close>
  holds them: the program passes no \<open>sort_keys\<close>.
\<close>

definition newline_indent :: "nat option \<Rightarrow> nat \<Rightarrow> string" where
  "newline_indent indent level =
     (case indent of None \<Rightarrow> [] | Some k \<Rightarrow> CHR 0x0A # replicate (k * level) CHR '' '')"

definition item_separator :: "nat option \<Rightarrow> nat \<Rightarrow> string" where
  "item_separator indent level =
     (case indent of None \<Rightarrow> '', '' | Some k \<Rightarrow> CHR '','' # newline_indent indent level)"

fun encode :: "nat option \<Rightarrow> nat \<Rightarrow> pyval \<Rightarrow> string" where
  "encode indent level PNone = ''null''"
| "encode indent level (PBool b) = (if b then ''true'' else ''false'')"
| "encode indent level (PInt i) = str_int i"
| "encode indent level (PFloat f) = floatstr f"
| "encode indent level (PStr s) = encode_basestring s"
| "encode indent level (PList xs) =
     (if xs = [] then ''[]''
      else CHR ''['' # newline_indent indent (Suc level)
           @ join (item_separator indent (Suc level)) (map (encode indent (Suc level)) xs)
           @ newline_indent indent level @ '']'')"
| "encode indent level (PDict kvs) =
     (if kvs = [] then ''{}''
      else CHR ''{'' # newline_indent indent (Suc level)
           @ join (item_separator indent (Suc level))
               (map (\<lambda>kv. encode_basestring (fst kv) @ '': '' @ encode indent (Suc level) (snd kv)) kvs)
           @ newline_indent indent level @ ''}'')"

definition json_dumps :: "pyval \<Rightarrow> string" where
  "json_dumps v = encode None 0 v"

definition json_dump_indent2 :: "pyval \<Rightarrow> string" where
  "json_dump_indent2 v = encode (Some 2) 0 v"

subsection \<open>A reference decoder\<close>

text \<open>
  \<open>json_loads\<close> follows the scanner of CPython's \<open>json\<close> package (3.11) on the documents it
  covers: objects, arrays, strings with the two-character escapes, integers, \<open>true\<close>,
  \<open>false\<close>, \<open>null\<close>, \<open>NaN\<close> and the infinities, with the library's error texts and
  positions. It does not cover a number with a fraction or an exponent nor a Unicode escape in a string
  (it answers \<open>Error\<close> there, which is no result of the library), and it bounds the nesting
  by the length of the document where the library bounds it by the interpreter's recursion
  limit. The theorems about the program hold for every decoder; this one supplies the
  concrete documents.
\<close>

datatype scan_error =
    StopIteration nat        \<comment> \<open>no value starts at this position\<close>
  | Malformed string nat     \<comment> \<open>\<open>JSONDecodeError(msg, doc, pos)\<close>\<close>
  | Unsupported
  | TooDeep

text \<open>The number of code points of a text: the bytes that do not continue a character.\<close>

definition cp_length :: "string \<Rightarrow> nat" where
  "cp_length s = length (filter (\<lambda>c. \<not> (0x80 \<le> (of_char c :: nat) \<and> (of_char c :: nat) < 0xC0)) s)"

text \<open>\<open>str(e)\<close> of a \<open>JSONDecodeError\<close>: the message with line, column and position.\<close>

definition errmsg :: "string \<Rightarrow> string \<Rightarrow> nat \<Rightarrow> string" where
  "errmsg msg doc pos =
     (let head = take pos doc;
          lineno = length (filter (\<lambda>c. c = CHR 0x0A) head) + 1;
          colno = cp_length (takeWhile (\<lambda>c. c \<noteq> CHR 0x0A) (rev head)) + 1
      in msg @ '': line '' @ str_nat lineno @ '' column '' @ str_nat colno
         @ '' (char '' @ str_nat (cp_length head) @ '')'')"

definition is_ws :: "char \<Rightarrow> bool" where
  "is_ws c = (c = CHR '' '' \<or> c = CHR 0x09 \<or> c = CHR 0x0A \<or> c = CHR 0x0D)"

definition is_digit :: "char \<Rightarrow> bool" where
  "is_digit c = (48 \<le> (of_char c :: nat) \<and> (of_char c :: nat) \<le> 57)"

text \<open>The scanning functions take the text that is left and the position it starts at.\<close>

fun skip_ws :: "string \<Rightarrow> nat \<Rightarrow> string \<times> nat" where
  "skip_ws [] p = ([], p)"
| "skip_ws (c # cs) p = (if is_ws c then skip_ws cs (Suc p) else (c # cs, p))"

definition unescape :: "char \<Rightarrow> char option" where
  "unescape e =
     (if e = CHR 0x22 then Some (CHR 0x22)
      else if e = CHR 0x5C then Some (CHR 0x5C)
      else if e = CHR ''/'' then Some (CHR ''/'')
      else if e = CHR ''b'' then Some (CHR 0x08)
      else if e = CHR ''f'' then Some (CHR 0x0C)
      else if e = CHR ''n'' then Some (CHR 0x0A)
      else if e = CHR ''r'' then Some (CHR 0x0D)
      else if e = CHR ''t'' then Some (CHR 0x09)
      else None)"

text \<open>\<open>scanstring\<close>, after the opening quote at position \<open>begin\<close>.\<close>

fun scanstring :: "nat \<Rightarrow> string \<Rightarrow> string \<Rightarrow> nat \<Rightarrow> scan_error + string \<times> string \<times> nat" where
  "scanstring begin acc [] p = Inl (Malformed ''Unterminated string starting at'' begin)"
| "scanstring begin acc (c # cs) p =
     (if c = CHR 0x22 then Inr (acc, cs, Suc p)
      else if c = CHR 0x5C then
        (case cs of
           [] \<Rightarrow> Inl (Malformed ''Unterminated string starting at'' begin)
         | e # cs' \<Rightarrow>
             if e = CHR ''u'' then Inl Unsupported
             else (case unescape e of
                     None \<Rightarrow> Inl (Malformed (''Invalid '' @ [CHR 0x5C] @ ''escape'') p)
                   | Some ch \<Rightarrow> scanstring begin (acc @ [ch]) cs' (p + 2)))
      else if (of_char c :: nat) \<le> 0x1F then Inl (Malformed ''Invalid control character at'' p)
      else scanstring begin (acc @ [c]) cs (Suc p))"

text \<open>
  The number at the start of the text: an optional minus sign, then \<open>0\<close> or a run of digits
  that does not start with \<open>0\<close>.
\<close>

definition int_of_digits :: "string \<Rightarrow> int" where
  "int_of_digits ds = foldl (\<lambda>n c. 10 * n + (int (of_char c) - 48)) 0 ds"

definition is_float_tail :: "string \<Rightarrow> bool" where
  "is_float_tail rest =
     (case rest of
        a # b # rest' \<Rightarrow>
          (a = CHR ''.'' \<and> is_digit b) \<or>
          ((a = CHR ''e'' \<or> a = CHR ''E'') \<and>
             (is_digit b \<or> ((b = CHR ''+'' \<or> b = CHR ''-'') \<and> rest' \<noteq> [] \<and> is_digit (hd rest'))))
      | _ \<Rightarrow> False)"

definition match_number :: "string \<Rightarrow> nat \<Rightarrow> scan_error + pyval \<times> string \<times> nat" where
  "match_number s p =
     (let neg = (s \<noteq> [] \<and> hd s = CHR ''-'');
          body = (if neg then tl s else s);
          digits = (if body \<noteq> [] \<and> hd body = CHR ''0'' then ''0'' else takeWhile is_digit body);
          rest = drop (length digits) body;
          q = p + (if neg then 1 else 0) + length digits
      in if digits = [] then Inl (StopIteration p)
         else if is_float_tail rest then Inl Unsupported
         else Inr (PInt (if neg then - int_of_digits digits else int_of_digits digits), rest, q))"

text \<open>\<open>dict(pairs)\<close>: a repeated key keeps its first place and takes the last value.\<close>

fun dict_set :: "(string \<times> pyval) list \<Rightarrow> string \<Rightarrow> pyval \<Rightarrow> (string \<times> pyval) list" where
  "dict_set [] k v = [(k, v)]"
| "dict_set ((k', v') # kvs) k v = (if k' = k then (k, v) # kvs else (k', v') # dict_set kvs k v)"

definition dict_of_pairs :: "(string \<times> pyval) list \<Rightarrow> (string \<times> pyval) list" where
  "dict_of_pairs pairs = foldl (\<lambda>d kv. dict_set d (fst kv) (snd kv)) [] pairs"

definition starts_with :: "string \<Rightarrow> string \<Rightarrow> bool" where
  "starts_with w s = (take (length w) s = w)"

text \<open>
  \<open>scan_once\<close>, the loop of \<open>JSONObject\<close> (entered after the opening quote of a key) and the
  loop of \<open>JSONArray\<close>. The first argument bounds the depth of the calls.
\<close>

fun scan_once :: "nat \<Rightarrow> string \<Rightarrow> nat \<Rightarrow> scan_error + pyval \<times> string \<times> nat"
  and object_loop :: "nat \<Rightarrow> (string \<times> pyval) list \<Rightarrow> string \<Rightarrow> nat \<Rightarrow> scan_error + pyval \<times> string \<times> nat"
  and array_loop :: "nat \<Rightarrow> pyval list \<Rightarrow> string \<Rightarrow> nat \<Rightarrow> scan_error + pyval \<times> string \<times> nat"
where
  "scan_once 0 s p = Inl TooDeep"
| "scan_once (Suc n) [] p = Inl (StopIteration p)"
| "scan_once (Suc n) (c # cs) p =
     (if c = CHR 0x22 then
        (case scanstring p [] cs (Suc p) of
           Inl e \<Rightarrow> Inl e
         | Inr (str, rest, q) \<Rightarrow> Inr (PStr str, rest, q))
      else if c = CHR ''{'' then
        (case skip_ws cs (Suc p) of
           (rest, q) \<Rightarrow>
             if rest \<noteq> [] \<and> hd rest = CHR ''}'' then Inr (PDict [], tl rest, Suc q)
             else if rest \<noteq> [] \<and> hd rest = CHR 0x22 then object_loop n [] (tl rest) (Suc q)
             else Inl (Malformed ''Expecting property name enclosed in double quotes'' q))
      else if c = CHR ''['' then
        (case skip_ws cs (Suc p) of
           (rest, q) \<Rightarrow>
             if rest \<noteq> [] \<and> hd rest = CHR '']'' then Inr (PList [], tl rest, Suc q)
             else array_loop n [] rest q)
      else if starts_with ''null'' (c # cs) then Inr (PNone, drop 4 (c # cs), p + 4)
      else if starts_with ''true'' (c # cs) then Inr (PBool True, drop 4 (c # cs), p + 4)
      else if starts_with ''false'' (c # cs) then Inr (PBool False, drop 5 (c # cs), p + 5)
      else if starts_with ''NaN'' (c # cs) then Inr (PFloat (Float_repr ''nan''), drop 3 (c # cs), p + 3)
      else if starts_with ''Infinity'' (c # cs) then Inr (PFloat (Float_repr ''inf''), drop 8 (c # cs), p + 8)
      else if starts_with ''-Infinity'' (c # cs) then Inr (PFloat (Float_repr ''-inf''), drop 9 (c # cs), p + 9)
      else match_number (c # cs) p)"
| "object_loop 0 pairs s p = Inl TooDeep"
| "object_loop (Suc n) pairs s p =
     (case scanstring (p - 1) [] s p of
        Inl e \<Rightarrow> Inl e
      | Inr (key, rest1, p1) \<Rightarrow>
          (case skip_ws rest1 p1 of
             (rest2, p2) \<Rightarrow>
               if rest2 = [] \<or> hd rest2 \<noteq> CHR '':'' then
                 Inl (Malformed (''Expecting '' @ [CHR 0x27] @ '':'' @ [CHR 0x27] @ '' delimiter'') p2)
               else
                 (case skip_ws (tl rest2) (Suc p2) of
                    (rest3, p3) \<Rightarrow>
                      (case scan_once n rest3 p3 of
                         Inl (StopIteration i) \<Rightarrow> Inl (Malformed ''Expecting value'' i)
                       | Inl e \<Rightarrow> Inl e
                       | Inr (v, rest4, p4) \<Rightarrow>
                           (case skip_ws rest4 p4 of
                              (rest5, p5) \<Rightarrow>
                                if rest5 \<noteq> [] \<and> hd rest5 = CHR ''}'' then
                                  Inr (PDict (dict_of_pairs (pairs @ [(key, v)])), tl rest5, Suc p5)
                                else if rest5 = [] \<or> hd rest5 \<noteq> CHR '','' then
                                  Inl (Malformed (''Expecting '' @ [CHR 0x27] @ '','' @ [CHR 0x27] @ '' delimiter'') p5)
                                else
                                  (case skip_ws (tl rest5) (Suc p5) of
                                     (rest6, p6) \<Rightarrow>
                                       if rest6 = [] \<or> hd rest6 \<noteq> CHR 0x22 then
                                         Inl (Malformed ''Expecting property name enclosed in double quotes'' p6)
                                       else object_loop n (pairs @ [(key, v)]) (tl rest6) (Suc p6)))))))"
| "array_loop 0 values s p = Inl TooDeep"
| "array_loop (Suc n) values s p =
     (case scan_once n s p of
        Inl (StopIteration i) \<Rightarrow> Inl (Malformed ''Expecting value'' i)
      | Inl e \<Rightarrow> Inl e
      | Inr (v, rest1, p1) \<Rightarrow>
          (case skip_ws rest1 p1 of
             (rest2, p2) \<Rightarrow>
               if rest2 \<noteq> [] \<and> hd rest2 = CHR '']'' then Inr (PList (values @ [v]), tl rest2, Suc p2)
               else if rest2 = [] \<or> hd rest2 \<noteq> CHR '','' then
                 Inl (Malformed (''Expecting '' @ [CHR 0x27] @ '','' @ [CHR 0x27] @ '' delimiter'') p2)
               else
                 (case skip_ws (tl rest2) (Suc p2) of
                    (rest3, p3) \<Rightarrow> array_loop n (values @ [v]) rest3 p3)))"

text \<open>
  \<open>json.loads\<close>: one value between optional white space, and nothing after it.
\<close>

definition json_loads :: decoder where
  "json_loads doc =
     (case skip_ws doc 0 of
        (rest, p) \<Rightarrow>
          (case scan_once (2 * length doc + 2) rest p of
             Inl (StopIteration i) \<Rightarrow> Inl (JSONDecodeError (errmsg ''Expecting value'' doc i))
           | Inl (Malformed msg i) \<Rightarrow> Inl (JSONDecodeError (errmsg msg doc i))
           | Inl Unsupported \<Rightarrow> Inl (Error ''not covered by the reference decoder'')
           | Inl TooDeep \<Rightarrow> Inl (Error ''maximum recursion depth exceeded'')
           | Inr (v, rest1, p1) \<Rightarrow>
               (case skip_ws rest1 p1 of
                  (rest2, p2) \<Rightarrow>
                    if rest2 = [] then Inr v
                    else Inl (JSONDecodeError (errmsg ''Extra data'' doc p2)))))"

subsection \<open>The generation service and the world of a run\<close>

record request =
  req_model :: string
  req_system :: string
  req_user :: string
  req_temperature :: pyfloat
  req_top_p :: pyfloat
  req_max_output_tokens :: int

text \<open>
  The service answers a request with the text of its response or raises; what it answers may
  depend on the requests it has received before.
\<close>

type_synonym service = "request list \<Rightarrow> request \<Rightarrow> exn + string"

text \<open>
  What a run leaves behind: the requests sent to the service, the documents handed to
  \<open>json.loads\<close>, the pieces of text written to the console, and the files written (name and
  content), each in order.
\<close>

record world =
  requests :: "request list"
  decodes :: "string list"
  console :: "string list"
  files :: "(string \<times> string) list"

definition initial_world :: world where
  "initial_world = \<lparr>requests = [], decodes = [], console = [], files = []\<rparr>"

definition print :: "string \<Rightarrow> world \<Rightarrow> world" where
  "print s w = w\<lparr>console := console w @ [s @ [CHR 0x0A]]\<rparr>"

definition write_file :: "string \<Rightarrow> string \<Rightarrow> world \<Rightarrow> world" where
  "write_file name content w = w\<lparr>files := files w @ [(name, content)]\<rparr>"

text \<open>
  \<open>input(prompt)\<close>: writes the prompt, then returns the next line of standard input without
  its line end, or raises \<open>EOFError\<close> when there is none.
\<close>

definition py_input :: "string \<Rightarrow> string list \<Rightarrow> world \<Rightarrow> (exn + string) \<times> string list \<times> world" where
  "py_input prompt stdin w =
     (let w' = w\<lparr>console := console w @ [prompt]\<rparr>
      in case stdin of [] \<Rightarrow> (Inl EOFError, [], w') | line # rest \<Rightarrow> (Inr line, rest, w'))"

subsection \<open>Prompts\<close>

definition SYSTEM_PLANNER :: string where
  \<open>SYSTEM_PLANNER =
     ''You are a precise planning assistant.'' @ [CHR 0x0A] @ ''Given the user'' @ [CHR 0x27]
     @ ''s inputs for an Interview Helper (job title, interviewer title, job description, resume),''
     @ [CHR 0x0A] @ ''produce a compact execution plan in STRICT JSON with EXACTLY these keys:''
     @ [CHR 0x0A] @ ''{'' @ [CHR 0x0A] @ ''  "steps": ["...", "..."],          // 3''
     @ [CHR 0xE2, CHR 0x80, CHR 0x93] @ ''6 short, clear steps'' @ [CHR 0x0A]
     @ ''  "assumptions": ["...", "..."],    // bullet list of assumptions'' @ [CHR 0x0A]
     @ ''  "success_criteria": ["...", "..."]// what success looks like'' @ [CHR 0x0A] @ ''}''
     @ [CHR 0x0A] @ ''Rules:'' @ [CHR 0x0A]
     @ ''- Return STRICT JSON only. No markdown, no commentary.'' @ [CHR 0x0A]
     @ ''- Keep steps actionable and specific to turning inputs into 10 tailored interview questions.''
     @ [CHR 0x0A]\<close>

definition SYSTEM_ANSWERER :: string where
  \<open>SYSTEM_ANSWERER =
     ''You are an interview-prep assistant.'' @ [CHR 0x0A] @ ''Using the user'' @ [CHR 0x27]
     @ ''s original inputs AND the provided planning JSON, produce a final response in MARKDOWN that:''
     @ [CHR 0x0A]
     @ ''- Includes a brief overview section (who the interviewer is, what the role needs).''
     @ [CHR 0x0A]
     @ ''- Presents EXACTLY **10** tailored interview questions (mix: role/technical, behavioral, resume-based follow-ups).''
     @ [CHR 0x0A] @ ''- Uses clear headings and bullet points.'' @ [CHR 0x0A]
     @ ''- Ends with a short **Next Steps** list (3'' @ [CHR 0xE2, CHR 0x80, CHR 0x93]
     @ ''5 bullets).'' @ [CHR 0x0A] @ ''- Be concise, specific, and avoid duplication.''
     @ [CHR 0x0A]\<close>

text \<open>\<open>PLANNER_USER_TEMPLATE.format(...)\<close> and \<open>ANSWER_USER_TEMPLATE.format(...)\<close>.\<close>

definition planner_user_format :: "string \<Rightarrow> string \<Rightarrow> string \<Rightarrow> string \<Rightarrow> string" where
  "planner_user_format role interviewer_title job_description resume_text =
     ''INPUTS:'' @ [CHR 0x0A] @ ''JOB TITLE: '' @ role
     @ [CHR 0x0A, CHR 0x0A] @ ''INTERVIEWER TITLE: '' @ interviewer_title
     @ [CHR 0x0A, CHR 0x0A] @ ''JOB DESCRIPTION:'' @ [CHR 0x0A] @ job_description
     @ [CHR 0x0A, CHR 0x0A] @ ''RESUME:'' @ [CHR 0x0A] @ resume_text
     @ [CHR 0x0A]"

definition answer_user_format :: "string \<Rightarrow> string \<Rightarrow> string \<Rightarrow> string \<Rightarrow> string \<Rightarrow> string" where
  "answer_user_format role interviewer_title job_description resume_text plan_json =
     ''ORIGINAL INPUTS:'' @ [CHR 0x0A] @ ''JOB TITLE: '' @ role
     @ [CHR 0x0A, CHR 0x0A] @ ''INTERVIEWER TITLE: '' @ interviewer_title
     @ [CHR 0x0A, CHR 0x0A] @ ''JOB DESCRIPTION:'' @ [CHR 0x0A] @ job_description
     @ [CHR 0x0A, CHR 0x0A] @ ''RESUME:'' @ [CHR 0x0A] @ resume_text
     @ [CHR 0x0A, CHR 0x0A] @ ''PLANNING JSON:'' @ [CHR 0x0A] @ plan_json
     @ [CHR 0x0A]"

subsection \<open>Helpers\<close>

text \<open>
  The loop of \<open>prompt_multiline\<close>: it reads lines until a blank line that is not the first
  line read, or until the end of input (the \<open>EOFError\<close> is caught). It returns the lines kept
  and the input that is left.
\<close>

fun read_lines :: "string list \<Rightarrow> string list \<Rightarrow> string list \<times> string list" where
  "read_lines [] lines = (lines, [])"
| "read_lines (line # rest) lines =
     (if strip line = [] \<and> length lines > 0 then (lines, rest)
      else read_lines rest (lines @ [line]))"

definition prompt_multiline :: "string \<Rightarrow> string list \<Rightarrow> world \<Rightarrow> string \<times> string list \<times> world" where
  \<open>prompt_multiline label stdin w =
     (let w1 = print ([CHR 0x0A] @ ''Enter '' @ label
                      @ ''. End with an empty line, then press Ctrl+D (macOS/Linux) to finish:'') w;
          w2 = print (replicate 80 CHR ''-'') w1;
          (lines, rest) = read_lines stdin [];
          w3 = print (replicate 80 CHR ''-'') w2
      in (strip (join [CHR 0x0A] lines), rest, w3))\<close>

text \<open>\<open>call_openai_responses\<close>: one request to the service, logged whether it succeeds or not.\<close>

definition call_openai_responses ::
  "service \<Rightarrow> string \<Rightarrow> string \<Rightarrow> string \<Rightarrow> pyfloat \<Rightarrow> pyfloat \<Rightarrow> int \<Rightarrow> world \<Rightarrow> (exn + string) \<times> world" where
  "call_openai_responses client model system user temperature top_p max_tokens w =
     (let req = \<lparr>req_model = model, req_system = system, req_user = user,
                 req_temperature = temperature, req_top_p = top_p,
                 req_max_output_tokens = max_tokens\<rparr>
      in (client (requests w) req, w\<lparr>requests := requests w @ [req]\<rparr>))"

text \<open>How an f-string renders an \<open>Optional[str]\<close>.\<close>

fun str_opt :: "string option \<Rightarrow> string" where
  "str_opt None = ''None''"
| "str_opt (Some s) = s"

definition repair_system :: string where
  "repair_system = ''You repair JSON. Output strict JSON only.''"

definition repair_instruction :: string where
  \<open>repair_instruction =
     ''The following text was supposed to be STRICT JSON but isn'' @ [CHR 0x27]
     @ ''t. Repair it to valid JSON that matches this schema:'' @ [CHR 0x0A] @ ''{'' @ [CHR 0x0A]
     @ ''  "steps": ["...", "..."],'' @ [CHR 0x0A] @ ''  "assumptions": ["...", "..."],''
     @ [CHR 0x0A] @ ''  "success_criteria": ["...", "..."]'' @ [CHR 0x0A] @ ''}'' @ [CHR 0x0A]
     @ ''Return STRICT JSON only. No commentary.''\<close>

text \<open>
  \<open>attempt_model_repair\<close>: one request asking the service to repair the text, and one parse
  of what it returns. An exception of the service is not caught here.
\<close>

definition attempt_model_repair ::
  "decoder \<Rightarrow> service \<Rightarrow> string \<Rightarrow> string \<Rightarrow> pyfloat \<Rightarrow> pyfloat \<Rightarrow> int \<Rightarrow> world
     \<Rightarrow> (exn + pyval \<times> string option) \<times> world" where
  "attempt_model_repair loads client model broken_text temperature top_p max_tokens w =
     (let fix_input = repair_instruction @ [CHR 0x0A, CHR 0x0A] @ ''BROKEN TEXT:'' @ [CHR 0x0A] @ broken_text
      in case call_openai_responses client model repair_system fix_input temperature top_p max_tokens w of
           (Inl e, w1) \<Rightarrow> (Inl e, w1)
         | (Inr repaired, w1) \<Rightarrow>
             (case try_parse_json_once loads repaired of
                (docs, Inl e) \<Rightarrow> (Inl e, w1\<lparr>decodes := decodes w1 @ docs\<rparr>)
              | (docs, Inr (data, err)) \<Rightarrow>
                  (let w2 = w1\<lparr>decodes := decodes w1 @ docs\<rparr>
                   in if truthy data then (Inr (data, None), w2)
                      else (Inr (PNone,
                              Some (''Repair attempt failed. Raw repair output:'' @ [CHR 0x0A] @ repaired
                                    @ [CHR 0x0A, CHR 0x0A] @ ''Parse error: '' @ str_opt err)), w2))))"

subsection \<open>Main\<close>

text \<open>
  What \<open>main\<close> reads besides standard input: the environment (\<open>OPENAI_API_KEY\<close> and
  \<open>OPENAI_MODEL\<close> after \<open>load_dotenv\<close>, and \<open>OPENAI_MODEL\<close> as it was when the module was
  loaded) and the parsed command line.
\<close>

record env =
  api_key :: "string option"
  model_at_import :: "string option"
  model_at_run :: "string option"

record args =
  temperature :: pyfloat
  top_p :: pyfloat
  max_tokens :: int

text \<open>A run ends by returning from \<open>main\<close> or with an exception nobody caught.\<close>

datatype outcome = Returned | Uncaught exn

text \<open>Input collection: the four values, trimmed.\<close>

definition collect_inputs ::
  "string list \<Rightarrow> world \<Rightarrow> (exn + string \<times> string \<times> string \<times> string) \<times> world" where
  \<open>collect_inputs stdin w =
     (case py_input (''Step 1 '' @ [CHR 0xE2, CHR 0x80, CHR 0x94] @ '' Enter Job Title: '') stdin w of
        (Inl e, rest1, w1) \<Rightarrow> (Inl e, w1)
      | (Inr line1, rest1, w1) \<Rightarrow>
          (case py_input (''Step 1 '' @ [CHR 0xE2, CHR 0x80, CHR 0x94]
                          @ '' Enter Interviewer Title (Hiring Manager or Recruiter): '') rest1 w1 of
             (Inl e, rest2, w2) \<Rightarrow> (Inl e, w2)
           | (Inr line2, rest2, w2) \<Rightarrow>
               (let role = strip line1;
                    interviewer_title = strip line2;
                    (job_description, rest3, w3) =
                       prompt_multiline (''Step 2 '' @ [CHR 0xE2, CHR 0x80, CHR 0x94] @ '' Job Description'') rest2 w2;
                    (resume_text, rest4, w4) =
                       prompt_multiline (''Step 3 '' @ [CHR 0xE2, CHR 0x80, CHR 0x94] @ '' Resume'') rest3 w3
                in (Inr (role, interviewer_title, job_description, resume_text), w4))))\<close>

text \<open>Saving the plan, then chain 2: the answer in Markdown, displayed and saved.\<close>

definition save_and_answer ::
  "service \<Rightarrow> string \<Rightarrow> args \<Rightarrow> string \<Rightarrow> string \<Rightarrow> string \<Rightarrow> string \<Rightarrow> pyval \<Rightarrow> bool \<Rightarrow> world
     \<Rightarrow> outcome \<times> world" where
  \<open>save_and_answer client MODEL args role interviewer_title job_description resume_text
       plan_data repaired w =
     (let w1 = write_file ''plan.json'' (json_dump_indent2 plan_data) w;
          w2 = print (''[Chain 1] Plan ready. Saved to plan.json''
                      @ (if repaired then '' (repaired)'' else [])) w1;
          w3 = print ''[Chain 2] Generating final Markdown answer...'' w2;
          plan_json_compact = json_dumps plan_data;
          answer_user = answer_user_format role interviewer_title job_description resume_text
                          plan_json_compact
      in case call_openai_responses client MODEL SYSTEM_ANSWERER answer_user
                (temperature args) (top_p args) (max_tokens args) w3 of
           (Inl e, w4) \<Rightarrow> (Returned, print (''OpenAI error during answering: '' @ exn_str e) w4)
         | (Inr final_md, w4) \<Rightarrow>
             (let w5 = print ([CHR 0x0A] @ ''========== FINAL ANSWER (Markdown) =========='' @ [CHR 0x0A]) w4;
                  w6 = print final_md w5;
                  w7 = print ([CHR 0x0A] @ ''============================================='' @ [CHR 0x0A]) w6;
                  w8 = write_file ''output.md'' final_md w7
              in (Returned, print ''Saved Markdown to output.md'' w8)))\<close>

text \<open>
  Chain 1: the planning request, the parse, the one-time repair when the parsed data is not
  true, and then the rest of the run. An exception of the planning request is caught; one
  raised inside \<open>try_parse_json_once\<close> or \<open>attempt_model_repair\<close> is not.
\<close>

definition plan_and_answer ::
  "decoder \<Rightarrow> service \<Rightarrow> string \<Rightarrow> args \<Rightarrow> string \<Rightarrow> string \<Rightarrow> string \<Rightarrow> string \<Rightarrow> world
     \<Rightarrow> outcome \<times> world" where
  \<open>plan_and_answer loads client MODEL args role interviewer_title job_description resume_text w =
     (let planner_user = planner_user_format role interviewer_title job_description resume_text;
          w1 = print ([CHR 0x0A] @ ''[Chain 1] Creating plan...'') w
      in case call_openai_responses client MODEL SYSTEM_PLANNER planner_user
                (temperature args) (top_p args) (max_tokens args) w1 of
           (Inl e, w2) \<Rightarrow> (Returned, print (''OpenAI error during planning: '' @ exn_str e) w2)
         | (Inr plan_raw, w2) \<Rightarrow>
             (case try_parse_json_once loads plan_raw of
                (docs, Inl e) \<Rightarrow> (Uncaught e, w2\<lparr>decodes := decodes w2 @ docs\<rparr>)
              | (docs, Inr (plan_data, parse_err)) \<Rightarrow>
                  (let w3 = w2\<lparr>decodes := decodes w2 @ docs\<rparr>
                   in if \<not> truthy plan_data then
                        (let w4 = print ''[Chain 1] Plan JSON parse failed. Attempting a one-time repair...'' w3
                         in case attempt_model_repair loads client MODEL plan_raw
                                   (temperature args) (top_p args) (max_tokens args) w4 of
                              (Inl e, w5) \<Rightarrow> (Uncaught e, w5)
                            | (Inr (plan_data', repair_err), w5) \<Rightarrow>
                                (let repaired = (plan_data' \<noteq> PNone)
                                 in if \<not> truthy plan_data' then
                                      (let w6 = print ''Plan repair failed.'' w5;
                                           w7 = print (case repair_err of None \<Rightarrow> [] | Some m \<Rightarrow> m) w6
                                       in (Returned,
                                           print ([CHR 0x0A] @ ''Raw plan output:'' @ [CHR 0x0A] @ '' '' @ plan_raw) w7))
                                    else save_and_answer client MODEL args role interviewer_title
                                           job_description resume_text plan_data' repaired w5))
                      else save_and_answer client MODEL args role interviewer_title
                             job_description resume_text plan_data False w3)))\<close>

definition main :: "decoder \<Rightarrow> service \<Rightarrow> env \<Rightarrow> args \<Rightarrow> string list \<Rightarrow> outcome \<times> world" where
  \<open>main loads client env args stdin =
     (if api_key env = None \<or> api_key env = Some [] then
        (Returned,
         print ''Error: OPENAI_API_KEY not found. Put it in .env (OPENAI_API_KEY=...)'' initial_world)
      else
        (let MODEL = (case model_at_run env of
                        Some m \<Rightarrow> m
                      | None \<Rightarrow> (case model_at_import env of
                                   Some m \<Rightarrow> m
                                 | None \<Rightarrow> ''gpt-5-chat-latest''));
             w1 = print ([CHR 0x0A] @ ''=== Interview Helper (Two-Stage) ==='') initial_world
         in case collect_inputs stdin w1 of
              (Inl e, w2) \<Rightarrow> (Uncaught e, w2)
            | (Inr (role, interviewer_title, job_description, resume_text), w2) \<Rightarrow>
                if \<not> (role \<noteq> [] \<and> interviewer_title \<noteq> [] \<and> job_description \<noteq> [] \<and> resume_text \<noteq> [])
                then (Returned, print ''Error: All inputs are required.'' w2)
                else plan_and_answer loads client MODEL args role interviewer_title
                       job_description resume_text w2))\<close>

subsection \<open>The requests of a run\<close>

text \<open>
  Names for what the theorems speak of: the model name \<open>main\<close> settles on, the three
  requests the program builds, the repair requests among those a run has issued, and the runs
  that get past the key check and the input check.
\<close>

definition model_name :: "env \<Rightarrow> string" where
  "model_name env =
     (case model_at_run env of
        Some m \<Rightarrow> m
      | None \<Rightarrow> (case model_at_import env of Some m \<Rightarrow> m | None \<Rightarrow> ''gpt-5-chat-latest''))"

definition planner_request :: "string \<Rightarrow> args \<Rightarrow> string \<Rightarrow> string \<Rightarrow> string \<Rightarrow> string \<Rightarrow> request" where
  "planner_request MODEL args role interviewer_title job_description resume_text =
     \<lparr>req_model = MODEL, req_system = SYSTEM_PLANNER,
      req_user = planner_user_format role interviewer_title job_description resume_text,
      req_temperature = temperature args, req_top_p = top_p args,
      req_max_output_tokens = max_tokens args\<rparr>"

definition repair_request :: "string \<Rightarrow> args \<Rightarrow> string \<Rightarrow> request" where
  "repair_request MODEL args broken_text =
     \<lparr>req_model = MODEL, req_system = repair_system,
      req_user = repair_instruction @ [CHR 0x0A, CHR 0x0A] @ ''BROKEN TEXT:'' @ [CHR 0x0A] @ broken_text,
      req_temperature = temperature args, req_top_p = top_p args,
      req_max_output_tokens = max_tokens args\<rparr>"

definition answer_request ::
  "string \<Rightarrow> args \<Rightarrow> string \<Rightarrow> string \<Rightarrow> string \<Rightarrow> string \<Rightarrow> pyval \<Rightarrow> request" where
  "answer_request MODEL args role interviewer_title job_description resume_text plan_data =
     \<lparr>req_model = MODEL, req_system = SYSTEM_ANSWERER,
      req_user = answer_user_format role interviewer_title job_description resume_text
                   (json_dumps plan_data),
      req_temperature = temperature args, req_top_p = top_p args,
      req_max_output_tokens = max_tokens args\<rparr>"

definition repair_requests :: "world \<Rightarrow> request list" where
  "repair_requests w = filter (\<lambda>r. req_system r = repair_system) (requests w)"

definition reaches_planning ::
  "env \<Rightarrow> string list \<Rightarrow> string \<Rightarrow> string \<Rightarrow> string \<Rightarrow> string \<Rightarrow> bool" where
  "reaches_planning env stdin role interviewer_title job_description resume_text \<longleftrightarrow>
     api_key env \<noteq> None \<and> api_key env \<noteq> Some [] \<and>
     fst (collect_inputs stdin initial_world)
       = Inr (role, interviewer_title, job_description, resume_text) \<and>
     role \<noteq> [] \<and> interviewer_title \<noteq> [] \<and> job_description \<noteq> [] \<and> resume_text \<noteq> []"

text \<open>The world in which planning starts: the banner and the prompts are on the console.\<close>

definition world_at_planning :: "string list \<Rightarrow> world" where
  "world_at_planning stdin =
     snd (collect_inputs stdin
            (print ([CHR 0x0A] @ ''=== Interview Helper (Two-Stage) ==='') initial_world))"

text \<open>
  The world in which the repair is attempted, when the planning request was answered in
  world \<open>w\<close> and the parsed data is not true.
\<close>

definition world_at_repair :: "decoder \<Rightarrow> string \<Rightarrow> args \<Rightarrow> string \<Rightarrow> string \<Rightarrow> string \<Rightarrow> string \<Rightarrow> string \<Rightarrow> world \<Rightarrow> world" where
  "world_at_repair loads MODEL args role it jd rt plan_raw w =
     print ''[Chain 1] Plan JSON parse failed. Attempting a one-time repair...''
       ((print ([CHR 0x0A] @ ''[Chain 1] Creating plan...'') w)
          \<lparr>requests := requests w @ [planner_request MODEL args role it jd rt],
           decodes := decodes w @ fst (try_parse_json_once loads plan_raw)\<rparr>)"

text \<open>
  The shape the specification calls a PlanRecord: an object with the fields \<open>steps\<close>,
  \<open>assumptions\<close> and \<open>success_criteria\<close>, each a list of strings. The program never tests
  it; it serves to state what happens to a well-formed plan.
\<close>

definition is_string_list :: "pyval \<Rightarrow> bool" where
  "is_string_list v =
     (case v of PList xs \<Rightarrow> list_all (\<lambda>x. case x of PStr s \<Rightarrow> True | _ \<Rightarrow> False) xs | _ \<Rightarrow> False)"

definition is_plan_record :: "pyval \<Rightarrow> bool" where
  "is_plan_record v =
     (case v of
        PDict kvs \<Rightarrow>
          (case (map_of kvs ''steps'', map_of kvs ''assumptions'', map_of kvs ''success_criteria'') of
             (Some a, Some b, Some c) \<Rightarrow> is_string_list a \<and> is_string_list b \<and> is_string_list c
           | _ \<Rightarrow> False)
      | _ \<Rightarrow> False)"

subsection \<open>Example runs\<close>

text \<open>
  The environment, command line and console input of a run with all four inputs given, a run
  whose job title is blank, and a service that answers the requests of a run from a list of
  replies, in order.
\<close>

definition example_env :: env where
  "example_env = \<lparr>api_key = Some ''sk-test'', model_at_import = None, model_at_run = None\<rparr>"

definition example_args :: args where
  "example_args = \<lparr>temperature = Float_repr ''0.7'', top_p = Float_repr ''1.0'', max_tokens = 1000\<rparr>"

definition example_stdin :: "string list" where
  "example_stdin =
     [''Backend Engineer'', ''Hiring Manager'', ''Build and run payment APIs.'', [],
      ''Five years of Python.'', []]"

definition blank_title_stdin :: "string list" where
  "blank_title_stdin =
     [''   '', ''Hiring Manager'', ''Build and run payment APIs.'', [],
      ''Five years of Python.'', []]"

definition scripted :: "string list \<Rightarrow> service" where
  "scripted replies history req =
     (if length history < length replies then Inr (replies ! length history)
      else Inl (Error ''no reply''))"

section \<open>Properties of the parser\<close>

subsection \<open>Searching and slicing\<close>

lemma find_char_append:
  "c \<notin> set pre \<Longrightarrow> find_char c (pre @ c # rest) = int (length pre)"
  by (induction pre) (auto simp: Let_def)

lemma rfind_char_absent: "c \<notin> set s \<Longrightarrow> rfind_char c s = - 1"
  by (induction s) (auto simp: Let_def)

lemma rfind_char_append:
  "c \<notin> set suf \<Longrightarrow> rfind_char c (s @ c # suf) = int (length s)"
proof (induction s)
  case Nil
  then show ?case by (simp add: Let_def rfind_char_absent)
next
  case (Cons a s)
  then show ?case by (simp add: Let_def)
qed

lemma py_slice_nonneg:
  "py_slice s (int a) (int b) = take (min (length s) b - min (length s) a) (drop (min (length s) a) s)"
  by (simp add: py_slice_def slice_index_def Let_def)

text \<open>
  When the first opening brace comes before the last closing brace, the candidate is the
  text from the one through the other.
\<close>

lemma candidate_embedded:
  assumes "CHR ''{'' \<notin> set pre" and "CHR ''}'' \<notin> set suf"
  shows "py_slice (pre @ CHR ''{'' # mid @ CHR ''}'' # suf)
           (find_char CHR ''{'' (pre @ CHR ''{'' # mid @ CHR ''}'' # suf))
           (rfind_char CHR ''}'' (pre @ CHR ''{'' # mid @ CHR ''}'' # suf) + 1)
         = CHR ''{'' # mid @ [CHR ''}'']"
proof -
  let ?raw = "pre @ CHR ''{'' # mid @ CHR ''}'' # suf"
  have f: "find_char CHR ''{'' ?raw = int (length pre)"
    using assms(1) by (rule find_char_append)
  have r: "rfind_char CHR ''}'' ?raw = int (length (pre @ CHR ''{'' # mid))"
    using rfind_char_append [OF assms(2), of "pre @ CHR ''{'' # mid"] by simp
  have r1: "rfind_char CHR ''}'' ?raw + 1 = int (length pre + length mid + 2)"
    unfolding r by simp
  show ?thesis
    unfolding f r1 py_slice_nonneg by (simp add: min_def)
qed

text \<open>
  When the last closing brace comes before the first opening brace, the upper bound of the
  slice does not exceed the lower one and the candidate is empty.
\<close>

lemma candidate_reversed:
  assumes "CHR ''}'' \<notin> set (mid @ CHR ''{'' # suf)" and "CHR ''{'' \<notin> set (pre @ CHR ''}'' # mid)"
  shows "py_slice (pre @ CHR ''}'' # mid @ CHR ''{'' # suf)
           (find_char CHR ''{'' (pre @ CHR ''}'' # mid @ CHR ''{'' # suf))
           (rfind_char CHR ''}'' (pre @ CHR ''}'' # mid @ CHR ''{'' # suf) + 1)
         = []"
proof -
  let ?raw = "pre @ CHR ''}'' # mid @ CHR ''{'' # suf"
  have f: "find_char CHR ''{'' ?raw = int (length (pre @ CHR ''}'' # mid))"
    using find_char_append [OF assms(2), of suf] by simp
  have r: "rfind_char CHR ''}'' ?raw = int (length pre)"
    using assms(1) by (rule rfind_char_append)
  have r1: "rfind_char CHR ''}'' ?raw + 1 = int (length pre + 1)"
    unfolding r by simp
  show ?thesis
    unfolding f r1 py_slice_nonneg by (simp add: min_def)
qed

subsection \<open>What the parser returns\<close>

lemma try_parse_decoded:
  "loads raw_text = Inr v \<Longrightarrow> try_parse_json_once loads raw_text = ([raw_text], Inr (v, None))"
  by (simp add: try_parse_json_once_def)

lemma try_parse_no_braces:
  assumes "loads raw_text = Inl (JSONDecodeError e1)"
      and "\<not> (CHR ''{'' \<in> set raw_text \<and> CHR ''}'' \<in> set raw_text)"
  shows "try_parse_json_once loads raw_text
           = ([raw_text], Inr (PNone, Some (''JSON parsing failed: '' @ e1)))"
  using assms by (auto simp add: try_parse_json_once_def)

lemma try_parse_braces:
  assumes "loads raw_text = Inl (JSONDecodeError e1)"
      and "CHR ''{'' \<in> set raw_text" and "CHR ''}'' \<in> set raw_text"
  shows "try_parse_json_once loads raw_text =
           (let candidate = py_slice raw_text (find_char CHR ''{'' raw_text)
                              (rfind_char CHR ''}'' raw_text + 1)
            in ([raw_text, candidate],
                case loads candidate of
                  Inr v \<Rightarrow> Inr (v, None)
                | Inl (JSONDecodeError e2) \<Rightarrow>
                    Inr (PNone, Some (''JSON parsing failed (initial + substring): '' @ e2))
                | Inl e \<Rightarrow> Inl e))"
  using assms by (simp add: try_parse_json_once_def Let_def split: sum.splits exn.splits)





text \<open>
  Claim C4, as amended. After a failed direct decode the parser retries exactly when the text
  holds both an opening and a closing brace, whatever their order, and then exactly once, on
  the slice from the first \<open>{\<close> through the last \<open>}\<close>. When the first opening brace comes
  before the last closing brace the slice is the text between them, braces included; when
  it comes after, the slice is empty and the decoder is still called on it. Without one of
  the two characters the decoder is called once, on the raw text only.
\<close>

theorem substring_retry_iff_both_braces:
  assumes "loads raw_text = Inl (JSONDecodeError e1)"
  shows "fst (try_parse_json_once loads raw_text) =
           (if CHR ''{'' \<in> set raw_text \<and> CHR ''}'' \<in> set raw_text
            then [raw_text,
                  py_slice raw_text (find_char CHR ''{'' raw_text) (rfind_char CHR ''}'' raw_text + 1)]
            else [raw_text])
         \<and> (\<forall>pre mid suf.
               raw_text = pre @ CHR ''{'' # mid @ CHR ''}'' # suf
                 \<and> CHR ''{'' \<notin> set pre \<and> CHR ''}'' \<notin> set suf \<longrightarrow>
               fst (try_parse_json_once loads raw_text) = [raw_text, CHR ''{'' # mid @ [CHR ''}'']])
         \<and> (\<forall>pre mid suf.
               raw_text = pre @ CHR ''}'' # mid @ CHR ''{'' # suf
                 \<and> CHR ''}'' \<notin> set (mid @ CHR ''{'' # suf) \<and> CHR ''{'' \<notin> set (pre @ CHR ''}'' # mid) \<longrightarrow>
               fst (try_parse_json_once loads raw_text) = [raw_text, []])"
proof -
  have log: "fst (try_parse_json_once loads raw_text) =
           (if CHR ''{'' \<in> set raw_text \<and> CHR ''}'' \<in> set raw_text
            then [raw_text,
                  py_slice raw_text (find_char CHR ''{'' raw_text) (rfind_char CHR ''}'' raw_text + 1)]
            else [raw_text])"
  proof (cases "CHR ''{'' \<in> set raw_text \<and> CHR ''}'' \<in> set raw_text")
    case True
    then show ?thesis
      using try_parse_braces [of loads raw_text e1] assms by (simp add: Let_def)
  next
    case False
    then show ?thesis
      using try_parse_no_braces [of loads raw_text e1] assms by simp
  qed
  have ordered: "fst (try_parse_json_once loads raw_text) = [raw_text, CHR ''{'' # mid @ [CHR ''}'']]"
    if "raw_text = pre @ CHR ''{'' # mid @ CHR ''}'' # suf"
      and "CHR ''{'' \<notin> set pre" and "CHR ''}'' \<notin> set suf" for pre mid suf
    unfolding log using that candidate_embedded [of pre suf mid] by simp
  have reversed: "fst (try_parse_json_once loads raw_text) = [raw_text, []]"
    if "raw_text = pre @ CHR ''}'' # mid @ CHR ''{'' # suf"
      and "CHR ''}'' \<notin> set (mid @ CHR ''{'' # suf)" and "CHR ''{'' \<notin> set (pre @ CHR ''}'' # mid)"
    for pre mid suf
    unfolding log using that candidate_reversed [of mid suf pre] by simp
  show ?thesis
    using log ordered reversed by blast
qed

theorem substring_retry_iff_both_braces_witness:
  \<open>fst (try_parse_json_once json_loads ''Sure! {"steps": []} Done.'')
     = [''Sure! {"steps": []} Done.'', ''{"steps": []}'']
   \<and> fst (try_parse_json_once json_loads ''no plan today'') = [''no plan today'']\<close>
proof -
  have h1: \<open>json_loads ''Sure! {"steps": []} Done.''
              = Inl (JSONDecodeError ''Expecting value: line 1 column 1 (char 0)'')\<close>
    by code_simp
  have h2: \<open>json_loads ''no plan today''
              = Inl (JSONDecodeError ''Expecting value: line 1 column 1 (char 0)'')\<close>
    by code_simp
  have \<open>fst (try_parse_json_once json_loads ''Sure! {"steps": []} Done.'')
          = [''Sure! {"steps": []} Done.'', CHR ''{'' # ''"steps": []'' @ [CHR ''}'']]\<close>
    using substring_retry_iff_both_braces
            [where loads = json_loads and raw_text = \<open>''Sure! {"steps": []} Done.''\<close>, OF h1]
    by (elim conjE allE [of _ "''Sure! ''"] allE [of _ \<open>''"steps": []''\<close>] allE [of _ "'' Done.''"]) simp
  moreover have "fst (try_parse_json_once json_loads ''no plan today'') = [''no plan today'']"
    using substring_retry_iff_both_braces
            [where loads = json_loads and raw_text = "''no plan today''", OF h2]
    by simp
  ultimately show ?thesis by simp
qed

text \<open>
  Claim C4 as stated fails where the only closing brace comes before the only opening brace:
  the first does not precede the last, and the parser still retries, on the empty slice.
\<close>

theorem substring_retry_counterexample:
  \<open>find_char CHR ''{'' ''} {'' = 2 \<and> rfind_char CHR ''}'' ''} {'' = 0 \<and>
   try_parse_json_once json_loads ''} {'' =
     ([''} {'', []],
      Inr (PNone, Some ''JSON parsing failed (initial + substring): Expecting value: line 1 column 1 (char 0)''))\<close>
  by code_simp

text \<open>
  Claim C5, as amended. The parser checks no shape: it returns data without an error message
  exactly when the decoder accepts the raw text or, after rejecting it, accepts the brace
  slice, and the data is the decoder's value, whatever it is.
\<close>

theorem parse_returns_any_decoded_value:
  "snd (try_parse_json_once loads raw_text) = Inr (v, None) \<longleftrightarrow>
     (loads raw_text = Inr v \<or>
      ((\<exists>e1. loads raw_text = Inl (JSONDecodeError e1))
         \<and> CHR ''{'' \<in> set raw_text \<and> CHR ''}'' \<in> set raw_text
         \<and> loads (py_slice raw_text (find_char CHR ''{'' raw_text) (rfind_char CHR ''}'' raw_text + 1))
             = Inr v))"
  by (auto simp add: try_parse_json_once_def Let_def split: sum.splits exn.splits)

theorem parse_returns_any_decoded_value_witness:
  \<open>snd (try_parse_json_once json_loads ''[1, "two", null]'')
     = Inr (PList [PInt 1, PStr ''two'', PNone], None)\<close>
proof -
  have \<open>json_loads ''[1, "two", null]'' = Inr (PList [PInt 1, PStr ''two'', PNone])\<close>
    by code_simp
  then show ?thesis
    using parse_returns_any_decoded_value [of json_loads \<open>''[1, "two", null]''\<close>] by blast
qed

text \<open>
  Claim C5 as stated fails on an object that lacks two of the three fields: the parser
  returns it as data, with no error.
\<close>

theorem parse_shape_counterexample:
  \<open>try_parse_json_once json_loads ''{"steps": ["a"]}''
     = ([''{"steps": ["a"]}''], Inr (PDict [(''steps'', PList [PStr ''a''])], None))\<close>
  by code_simp

text \<open>
  Claim C8, as amended. When the decoder rejects both the raw text and the brace slice, the
  message is a fixed prefix followed by the error of the slice, and the error of the raw
  text is dropped; when no retry is made, it is another fixed prefix followed by the error
  of the raw text.
\<close>

theorem parse_failure_message:
  assumes "loads raw_text = Inl (JSONDecodeError e1)"
  shows "(CHR ''{'' \<in> set raw_text \<and> CHR ''}'' \<in> set raw_text
            \<and> loads (py_slice raw_text (find_char CHR ''{'' raw_text) (rfind_char CHR ''}'' raw_text + 1))
                = Inl (JSONDecodeError e2) \<longrightarrow>
          snd (try_parse_json_once loads raw_text)
            = Inr (PNone, Some (''JSON parsing failed (initial + substring): '' @ e2)))
       \<and> (\<not> (CHR ''{'' \<in> set raw_text \<and> CHR ''}'' \<in> set raw_text) \<longrightarrow>
          snd (try_parse_json_once loads raw_text)
            = Inr (PNone, Some (''JSON parsing failed: '' @ e1)))"
  using assms by (auto simp add: try_parse_json_once_def Let_def)

theorem parse_failure_message_witness:
  \<open>snd (try_parse_json_once json_loads ''[1, 2'')
     = Inr (PNone, Some (''JSON parsing failed: '' @ ''Expecting '' @ [CHR 0x27] @ '','' @ [CHR 0x27] @ '' delimiter: line 1 column 6 (char 5)''))
   \<and> snd (try_parse_json_once json_loads ''{"steps": [}'')
     = Inr (PNone, Some (''JSON parsing failed (initial + substring): '' @ ''Expecting value: line 1 column 12 (char 11)''))\<close>
proof -
  have h1: \<open>json_loads ''[1, 2'' = Inl (JSONDecodeError (''Expecting '' @ [CHR 0x27] @ '','' @ [CHR 0x27] @ '' delimiter: line 1 column 6 (char 5)''))\<close>
    by code_simp
  have h2: \<open>json_loads ''{"steps": [}'' = Inl (JSONDecodeError ''Expecting value: line 1 column 12 (char 11)'')\<close>
    by code_simp
  have h3: \<open>py_slice ''{"steps": [}'' (find_char CHR ''{'' ''{"steps": [}'') (rfind_char CHR ''}'' ''{"steps": [}'' + 1)
              = ''{"steps": [}''\<close>
    by code_simp
  have a: \<open>snd (try_parse_json_once json_loads ''[1, 2'')
     = Inr (PNone, Some (''JSON parsing failed: '' @ ''Expecting '' @ [CHR 0x27] @ '','' @ [CHR 0x27] @ '' delimiter: line 1 column 6 (char 5)''))\<close>
    using parse_failure_message [where loads = json_loads and raw_text = "''[1, 2''", OF h1]
    by simp
  have b: \<open>snd (try_parse_json_once json_loads ''{"steps": [}'')
     = Inr (PNone, Some (''JSON parsing failed (initial + substring): '' @ ''Expecting value: line 1 column 12 (char 11)''))\<close>
    using parse_failure_message
            [where loads = json_loads and raw_text = \<open>''{"steps": [}''\<close>
               and ?e2.0 = \<open>''Expecting value: line 1 column 12 (char 11)''\<close>, OF h2] h2 h3
    by simp
  from a b show ?thesis by simp
qed

text \<open>
  Claim C8 as stated fails where the two errors differ: the decoder rejects the raw text
  with one message and the slice with another, and the failure carries the second only.
\<close>

theorem parse_failure_message_counterexample:
  \<open>json_loads ''a {b}'' = Inl (JSONDecodeError ''Expecting value: line 1 column 1 (char 0)'') \<and>
   json_loads ''{b}'' = Inl (JSONDecodeError ''Expecting property name enclosed in double quotes: line 1 column 2 (char 1)'') \<and>
   try_parse_json_once json_loads ''a {b}'' =
     ([''a {b}'', ''{b}''],
      Inr (PNone, Some ''JSON parsing failed (initial + substring): Expecting property name enclosed in double quotes: line 1 column 2 (char 1)''))\<close>
  by code_simp


section \<open>Properties of a run\<close>

subsection \<open>What each step does to the world\<close>

lemma print_world [simp]:
  "requests (print s w) = requests w" "decodes (print s w) = decodes w"
  "files (print s w) = files w" "console (print s w) = console w @ [s @ [CHR 0x0A]]"
  by (simp_all add: print_def)

lemma write_file_world [simp]:
  "requests (write_file n c w) = requests w" "decodes (write_file n c w) = decodes w"
  "files (write_file n c w) = files w @ [(n, c)]" "console (write_file n c w) = console w"
  by (simp_all add: write_file_def)

lemma py_input_world:
  "py_input prompt stdin w = (r, rest, w') \<Longrightarrow>
     requests w' = requests w \<and> decodes w' = decodes w \<and> files w' = files w"
  by (auto simp add: py_input_def Let_def split: list.splits)

lemma py_input_fst: "fst (py_input prompt stdin w) = fst (py_input prompt stdin w')"
  and py_input_rest: "fst (snd (py_input prompt stdin w)) = fst (snd (py_input prompt stdin w'))"
  by (simp_all add: py_input_def Let_def split: list.splits)

lemma prompt_multiline_world:
  "prompt_multiline label stdin w = (text, rest, w') \<Longrightarrow>
     requests w' = requests w \<and> decodes w' = decodes w \<and> files w' = files w"
  by (auto simp add: prompt_multiline_def Let_def split: prod.splits)

lemma prompt_multiline_fst:
  "fst (prompt_multiline label stdin w) = fst (prompt_multiline label stdin w')"
  and prompt_multiline_rest:
  "fst (snd (prompt_multiline label stdin w)) = fst (snd (prompt_multiline label stdin w'))"
  by (simp_all add: prompt_multiline_def Let_def split: prod.splits)

lemma collect_inputs_world:
  assumes "collect_inputs stdin w = (r, w')"
  shows "requests w' = requests w \<and> decodes w' = decodes w \<and> files w' = files w"
  using assms
  by (auto simp add: collect_inputs_def Let_def split: prod.splits sum.splits
           dest!: py_input_world prompt_multiline_world)

lemma collect_inputs_fst: "fst (collect_inputs stdin w) = fst (collect_inputs stdin w')"
proof -
  have a: "py_input p s w = (r, rest, v) \<Longrightarrow> py_input p s w' = (r', rest', v') \<Longrightarrow> r = r' \<and> rest = rest'"
    for p s r rest v r' rest' v' and w w' :: world
    using py_input_fst [of p s w w'] py_input_rest [of p s w w'] by simp
  have b: "prompt_multiline p s w = (r, rest, v) \<Longrightarrow> prompt_multiline p s w' = (r', rest', v')
             \<Longrightarrow> r = r' \<and> rest = rest'"
    for p s r rest v r' rest' v' and w w' :: world
    using prompt_multiline_fst [of p s w w'] prompt_multiline_rest [of p s w w'] by simp
  show ?thesis
    unfolding collect_inputs_def Let_def
    by (auto split: prod.splits sum.splits dest: a b)
qed

lemma call_openai_responses_eq:
  "call_openai_responses client model system user t p k w =
     (client (requests w)
        \<lparr>req_model = model, req_system = system, req_user = user, req_temperature = t,
         req_top_p = p, req_max_output_tokens = k\<rparr>,
      w\<lparr>requests := requests w @
           [\<lparr>req_model = model, req_system = system, req_user = user, req_temperature = t,
             req_top_p = p, req_max_output_tokens = k\<rparr>]\<rparr>)"
  by (simp add: call_openai_responses_def Let_def)

lemma system_prompts_differ:
  "SYSTEM_PLANNER \<noteq> repair_system" "SYSTEM_ANSWERER \<noteq> repair_system"
  by (simp_all add: SYSTEM_PLANNER_def SYSTEM_ANSWERER_def repair_system_def)

lemma request_systems [simp]:
  "req_system (planner_request m a r i j t) = SYSTEM_PLANNER"
  "req_system (repair_request m a b) = repair_system"
  "req_system (answer_request m a r i j t v) = SYSTEM_ANSWERER"
  by (simp_all add: planner_request_def repair_request_def answer_request_def)

lemma try_parse_error_data:
  "snd (try_parse_json_once loads raw_text) = Inr (d, Some err) \<Longrightarrow> d = PNone"
  by (auto simp add: try_parse_json_once_def Let_def split: sum.splits exn.splits if_splits)

text \<open>The repair: one request, one parse, no file.\<close>

lemma attempt_model_repair_world:
  assumes "attempt_model_repair loads client MODEL broken t p k w = (r, w')"
  shows "requests w' = requests w @ [repair_request MODEL \<lparr>temperature = t, top_p = p, max_tokens = k\<rparr> broken]
         \<and> files w' = files w \<and> console w' = console w"
  using assms
  by (auto simp add: attempt_model_repair_def call_openai_responses_eq repair_request_def Let_def
           split: sum.splits prod.splits if_splits)

lemma attempt_model_repair_result:
  assumes "client (requests w) (repair_request MODEL \<lparr>temperature = t, top_p = p, max_tokens = k\<rparr> broken) = Inr repaired"
      and "snd (try_parse_json_once loads repaired) = Inr (d, err)"
  shows "fst (attempt_model_repair loads client MODEL broken t p k w) =
           (if truthy d then Inr (d, None)
            else Inr (PNone, Some (''Repair attempt failed. Raw repair output:'' @ [CHR 0x0A] @ repaired
                                   @ [CHR 0x0A, CHR 0x0A] @ ''Parse error: '' @ str_opt err)))"
  using assms
  by (auto simp add: attempt_model_repair_def call_openai_responses_eq repair_request_def Let_def
           split: sum.splits prod.splits)

text \<open>Saving and answering: the plan file first, one request, the document file on success.\<close>

lemma save_and_answer_world:
  assumes "save_and_answer client MODEL args role it jd rt plan_data repaired w = (out, w')"
  shows "out = Returned
         \<and> requests w' = requests w @ [answer_request MODEL args role it jd rt plan_data]
         \<and> decodes w' = decodes w
         \<and> files w' = files w @ (''plan.json'', json_dump_indent2 plan_data)
              # (case client (requests w) (answer_request MODEL args role it jd rt plan_data) of
                   Inl e \<Rightarrow> []
                 | Inr final_md \<Rightarrow> [(''output.md'', final_md)])"
  using assms
  by (auto simp add: save_and_answer_def call_openai_responses_eq answer_request_def Let_def
           split: sum.splits prod.splits)

subsection \<open>From \<open>main\<close> to the planning stage\<close>

lemma world_at_planning_empty [simp]:
  "requests (world_at_planning stdin) = []" "decodes (world_at_planning stdin) = []"
  "files (world_at_planning stdin) = []"
  using collect_inputs_world
          [of stdin "print ([CHR 0x0A] @ ''=== Interview Helper (Two-Stage) ==='') initial_world"
              "fst (collect_inputs stdin (print ([CHR 0x0A] @ ''=== Interview Helper (Two-Stage) ==='') initial_world))"
              "world_at_planning stdin"]
  by (simp_all add: world_at_planning_def initial_world_def)

lemma main_no_key:
  "api_key env = None \<or> api_key env = Some [] \<Longrightarrow>
     main loads client env args stdin =
       (Returned, print ''Error: OPENAI_API_KEY not found. Put it in .env (OPENAI_API_KEY=...)'' initial_world)"
  by (simp add: main_def)

lemma main_with_key:
  assumes "api_key env \<noteq> None" and "api_key env \<noteq> Some []"
  shows "main loads client env args stdin =
           (case fst (collect_inputs stdin initial_world) of
              Inl e \<Rightarrow> (Uncaught e, world_at_planning stdin)
            | Inr (role, interviewer_title, job_description, resume_text) \<Rightarrow>
                if \<not> (role \<noteq> [] \<and> interviewer_title \<noteq> [] \<and> job_description \<noteq> [] \<and> resume_text \<noteq> [])
                then (Returned, print ''Error: All inputs are required.'' (world_at_planning stdin))
                else plan_and_answer loads client (model_name env) args role interviewer_title
                       job_description resume_text (world_at_planning stdin))"
proof -
  let ?w1 = "print ([CHR 0x0A] @ ''=== Interview Helper (Two-Stage) ==='') initial_world"
  obtain r w2 where c: "collect_inputs stdin ?w1 = (r, w2)"
    by (cases "collect_inputs stdin ?w1")
  have w2: "w2 = world_at_planning stdin"
    using c by (simp add: world_at_planning_def)
  have r: "fst (collect_inputs stdin initial_world) = r"
    using collect_inputs_fst [of stdin initial_world ?w1] c by simp
  have nk: "\<not> (api_key env = None \<or> api_key env = Some [])"
    using assms by simp
  show ?thesis
    unfolding main_def Let_def if_not_P [OF nk] c r w2 model_name_def
    by (simp split: sum.splits)
qed

lemma main_reaches_planning:
  assumes "reaches_planning env stdin role it jd rt"
  shows "main loads client env args stdin =
           plan_and_answer loads client (model_name env) args role it jd rt (world_at_planning stdin)"
  using assms main_with_key [of env loads client args stdin]
  by (simp add: reaches_planning_def)

subsection \<open>The planning stage\<close>

lemma plan_and_answer_service_error:
  assumes "client (requests w) (planner_request MODEL args role it jd rt) = Inl e"
  shows "fst (plan_and_answer loads client MODEL args role it jd rt w) = Returned"
    and "requests (snd (plan_and_answer loads client MODEL args role it jd rt w))
           = requests w @ [planner_request MODEL args role it jd rt]"
    and "files (snd (plan_and_answer loads client MODEL args role it jd rt w)) = files w"
  using assms
  by (simp_all add: plan_and_answer_def call_openai_responses_eq planner_request_def Let_def)

lemma plan_and_answer_parse_raises:
  assumes "client (requests w) (planner_request MODEL args role it jd rt) = Inr plan_raw"
      and "snd (try_parse_json_once loads plan_raw) = Inl e"
  shows "fst (plan_and_answer loads client MODEL args role it jd rt w) = Uncaught e"
    and "requests (snd (plan_and_answer loads client MODEL args role it jd rt w))
           = requests w @ [planner_request MODEL args role it jd rt]"
    and "files (snd (plan_and_answer loads client MODEL args role it jd rt w)) = files w"
proof -
  obtain docs where "try_parse_json_once loads plan_raw = (docs, Inl e)"
    using assms(2) by (cases "try_parse_json_once loads plan_raw") simp
  then show "fst (plan_and_answer loads client MODEL args role it jd rt w) = Uncaught e"
    and "requests (snd (plan_and_answer loads client MODEL args role it jd rt w))
           = requests w @ [planner_request MODEL args role it jd rt]"
    and "files (snd (plan_and_answer loads client MODEL args role it jd rt w)) = files w"
    using assms(1)
    by (simp_all add: plan_and_answer_def call_openai_responses_eq planner_request_def Let_def)
qed

text \<open>The plan is true: no repair, the run goes on to save and answer.\<close>

lemma plan_and_answer_direct:
  assumes "client (requests w) (planner_request MODEL args role it jd rt) = Inr plan_raw"
      and "snd (try_parse_json_once loads plan_raw) = Inr (d, err)"
      and "truthy d"
  shows "plan_and_answer loads client MODEL args role it jd rt w =
           save_and_answer client MODEL args role it jd rt d False
             ((print ([CHR 0x0A] @ ''[Chain 1] Creating plan...'') w)
                \<lparr>requests := requests w @ [planner_request MODEL args role it jd rt],
                 decodes := decodes w @ fst (try_parse_json_once loads plan_raw)\<rparr>)"
proof -
  obtain docs where "try_parse_json_once loads plan_raw = (docs, Inr (d, err))"
    using assms(2) by (cases "try_parse_json_once loads plan_raw") simp
  then show ?thesis
    using assms(1,3)
    by (simp add: plan_and_answer_def call_openai_responses_eq planner_request_def Let_def)
qed

text \<open>The plan is not true: one repair, in the world \<open>world_at_repair\<close>.\<close>

lemma plan_and_answer_repair:
  assumes "client (requests w) (planner_request MODEL args role it jd rt) = Inr plan_raw"
      and "snd (try_parse_json_once loads plan_raw) = Inr (d, err)"
      and "\<not> truthy d"
  shows "plan_and_answer loads client MODEL args role it jd rt w =
           (case attempt_model_repair loads client MODEL plan_raw
                   (temperature args) (top_p args) (max_tokens args)
                   (world_at_repair loads MODEL args role it jd rt plan_raw w) of
              (Inl e, w5) \<Rightarrow> (Uncaught e, w5)
            | (Inr (plan_data', repair_err), w5) \<Rightarrow>
                if \<not> truthy plan_data' then
                  (Returned,
                   print ([CHR 0x0A] @ ''Raw plan output:'' @ [CHR 0x0A] @ '' '' @ plan_raw)
                     (print (case repair_err of None \<Rightarrow> [] | Some m \<Rightarrow> m)
                        (print ''Plan repair failed.'' w5)))
                else save_and_answer client MODEL args role it jd rt plan_data' (plan_data' \<noteq> PNone) w5)"
proof -
  obtain docs where "try_parse_json_once loads plan_raw = (docs, Inr (d, err))"
    using assms(2) by (cases "try_parse_json_once loads plan_raw") simp
  then show ?thesis
    using assms(1,3)
    by (simp add: plan_and_answer_def call_openai_responses_eq planner_request_def Let_def
                  world_at_repair_def
             split: prod.splits sum.splits)
qed

subsection \<open>The requests of every run\<close>

lemma args_fields [simp]:
  "\<lparr>temperature = temperature args, top_p = top_p args, max_tokens = max_tokens args\<rparr> = args"
  by simp

lemma world_at_repair_world [simp]:
  "requests (world_at_repair loads MODEL args role it jd rt plan_raw w)
     = requests w @ [planner_request MODEL args role it jd rt]"
  "files (world_at_repair loads MODEL args role it jd rt plan_raw w) = files w"
  "decodes (world_at_repair loads MODEL args role it jd rt plan_raw w)
     = decodes w @ fst (try_parse_json_once loads plan_raw)"
  "console (world_at_repair loads MODEL args role it jd rt plan_raw w)
     = console w @ [[CHR 0x0A] @ ''[Chain 1] Creating plan...'' @ [CHR 0x0A],
                    ''[Chain 1] Plan JSON parse failed. Attempting a one-time repair...'' @ [CHR 0x0A]]"
  by (simp_all add: world_at_repair_def)

text \<open>
  Every planning stage sends the planning request and then nothing, the answering request,
  the repair request, or the repair request followed by the answering request.
\<close>

lemma plan_and_answer_requests:
  "\<exists>tail. requests (snd (plan_and_answer loads client MODEL args role it jd rt w))
            = requests w @ planner_request MODEL args role it jd rt # tail
          \<and> (tail = []
               \<or> (\<exists>d. tail = [answer_request MODEL args role it jd rt d])
               \<or> (\<exists>raw. tail = [repair_request MODEL args raw])
               \<or> (\<exists>raw d. tail = [repair_request MODEL args raw,
                                    answer_request MODEL args role it jd rt d]))"
proof (cases "client (requests w) (planner_request MODEL args role it jd rt)")
  case (Inl e)
  then show ?thesis
    using plan_and_answer_service_error(2) [of client w MODEL args role it jd rt e loads] by simp
next
  case (Inr plan_raw)
  show ?thesis
  proof (cases "snd (try_parse_json_once loads plan_raw)")
    case (Inl e)
    then show ?thesis
      using plan_and_answer_parse_raises(2)
              [where client = client and w = w and loads = loads and e = e and plan_raw = plan_raw]
            Inr
      by simp
  next
    case parsed: (Inr r)
    obtain d err where r: "r = (d, err)" by (cases r)
    show ?thesis
    proof (cases "truthy d")
      case True
      let ?w3 = "(print ([CHR 0x0A] @ ''[Chain 1] Creating plan...'') w)
                   \<lparr>requests := requests w @ [planner_request MODEL args role it jd rt],
                    decodes := decodes w @ fst (try_parse_json_once loads plan_raw)\<rparr>"
      have eq: "plan_and_answer loads client MODEL args role it jd rt w =
                  save_and_answer client MODEL args role it jd rt d False ?w3"
        using plan_and_answer_direct
                [where client = client and w = w and loads = loads and d = d and err = err
                   and plan_raw = plan_raw]
              Inr parsed r True
        by simp
      obtain out w' where s: "save_and_answer client MODEL args role it jd rt d False ?w3 = (out, w')"
        by (cases "save_and_answer client MODEL args role it jd rt d False ?w3")
      from save_and_answer_world [OF s] show ?thesis
        unfolding eq s by auto
    next
      case False
      let ?w4 = "world_at_repair loads MODEL args role it jd rt plan_raw w"
      obtain res w5 where a: "attempt_model_repair loads client MODEL plan_raw
                                (temperature args) (top_p args) (max_tokens args) ?w4 = (res, w5)"
        by (cases "attempt_model_repair loads client MODEL plan_raw
                     (temperature args) (top_p args) (max_tokens args) ?w4")
      have w5: "requests w5 = requests w @ [planner_request MODEL args role it jd rt,
                                            repair_request MODEL args plan_raw]"
        using attempt_model_repair_world [OF a] by simp
      have eq: "plan_and_answer loads client MODEL args role it jd rt w =
                 (case res of
                    Inl e \<Rightarrow> (Uncaught e, w5)
                  | Inr (plan_data', repair_err) \<Rightarrow>
                      if \<not> truthy plan_data' then
                        (Returned,
                         print ([CHR 0x0A] @ ''Raw plan output:'' @ [CHR 0x0A] @ '' '' @ plan_raw)
                           (print (case repair_err of None \<Rightarrow> [] | Some m \<Rightarrow> m)
                              (print ''Plan repair failed.'' w5)))
                      else save_and_answer client MODEL args role it jd rt plan_data'
                             (plan_data' \<noteq> PNone) w5)"
        using plan_and_answer_repair
                [where client = client and w = w and loads = loads and d = d and err = err
                   and plan_raw = plan_raw]
              Inr parsed r False a
        by (simp split: sum.splits prod.splits)
      show ?thesis
      proof (cases res)
        case (Inl e)
        then show ?thesis unfolding eq using w5 by auto
      next
        case (Inr r')
        obtain d' err' where r': "r' = (d', err')" by (cases r')
        show ?thesis
        proof (cases "truthy d'")
          case True
          obtain out w' where s: "save_and_answer client MODEL args role it jd rt d' (d' \<noteq> PNone) w5 = (out, w')"
            by (cases "save_and_answer client MODEL args role it jd rt d' (d' \<noteq> PNone) w5")
          from save_and_answer_world [OF s] show ?thesis
            unfolding eq Inr r' using True s w5 by auto
        next
          case False
          then show ?thesis unfolding eq Inr r' using w5 by auto
        qed
      qed
    qed
  qed
qed

lemma plan_and_answer_repair_bound:
  "length (repair_requests (snd (plan_and_answer loads client MODEL args role it jd rt w)))
     \<le> length (repair_requests w) + 1"
  using plan_and_answer_requests [of loads client MODEL args role it jd rt w]
  by (auto simp add: repair_requests_def system_prompts_differ)

lemma main_repair_bound:
  "length (repair_requests (snd (main loads client env args stdin))) \<le> 1"
proof (cases "api_key env = None \<or> api_key env = Some []")
  case True
  then show ?thesis
    by (simp add: main_no_key repair_requests_def initial_world_def)
next
  case False
  then have m: "main loads client env args stdin =
           (case fst (collect_inputs stdin initial_world) of
              Inl e \<Rightarrow> (Uncaught e, world_at_planning stdin)
            | Inr (role, interviewer_title, job_description, resume_text) \<Rightarrow>
                if \<not> (role \<noteq> [] \<and> interviewer_title \<noteq> [] \<and> job_description \<noteq> [] \<and> resume_text \<noteq> [])
                then (Returned, print ''Error: All inputs are required.'' (world_at_planning stdin))
                else plan_and_answer loads client (model_name env) args role interviewer_title
                       job_description resume_text (world_at_planning stdin))"
    using main_with_key [of env loads client args stdin] by simp
  show ?thesis
  proof (cases "fst (collect_inputs stdin initial_world)")
    case (Inl e)
    then show ?thesis unfolding m by (simp add: repair_requests_def)
  next
    case (Inr t)
    obtain role it jd rt where t: "t = (role, it, jd, rt)" by (cases t)
    show ?thesis
      unfolding m Inr t
      using plan_and_answer_repair_bound [of loads client "model_name env" args role it jd rt "world_at_planning stdin"]
      by (simp add: repair_requests_def)
  qed
qed

subsection \<open>The repair path\<close>

lemma save_and_answer_console:
  "\<exists>suf. console (snd (save_and_answer client MODEL args role it jd rt plan_data repaired w))
           = console w @ suf"
  by (simp add: save_and_answer_def call_openai_responses_eq Let_def split: sum.splits)

lemma plan_and_answer_repair_path:
  assumes "client (requests w) (planner_request MODEL args role it jd rt) = Inr plan_raw"
      and "snd (try_parse_json_once loads plan_raw) = Inr (d, err)"
      and "\<not> truthy d"
  shows "\<exists>tail suf.
           requests (snd (plan_and_answer loads client MODEL args role it jd rt w))
             = requests w @ [planner_request MODEL args role it jd rt,
                             repair_request MODEL args plan_raw] @ tail
         \<and> (tail = [] \<or> (\<exists>d'. tail = [answer_request MODEL args role it jd rt d']))
         \<and> console (snd (plan_and_answer loads client MODEL args role it jd rt w))
             = console (world_at_repair loads MODEL args role it jd rt plan_raw w) @ suf"
proof -
  let ?w4 = "world_at_repair loads MODEL args role it jd rt plan_raw w"
  obtain res w5 where a: "attempt_model_repair loads client MODEL plan_raw
                            (temperature args) (top_p args) (max_tokens args) ?w4 = (res, w5)"
    by (cases "attempt_model_repair loads client MODEL plan_raw
                 (temperature args) (top_p args) (max_tokens args) ?w4")
  have w5: "requests w5 = requests w @ [planner_request MODEL args role it jd rt,
                                        repair_request MODEL args plan_raw]"
           "console w5 = console ?w4"
    using attempt_model_repair_world [OF a] by simp_all
  have eq: "plan_and_answer loads client MODEL args role it jd rt w =
             (case res of
                Inl e \<Rightarrow> (Uncaught e, w5)
              | Inr (plan_data', repair_err) \<Rightarrow>
                  if \<not> truthy plan_data' then
                    (Returned,
                     print ([CHR 0x0A] @ ''Raw plan output:'' @ [CHR 0x0A] @ '' '' @ plan_raw)
                       (print (case repair_err of None \<Rightarrow> [] | Some m \<Rightarrow> m)
                          (print ''Plan repair failed.'' w5)))
                  else save_and_answer client MODEL args role it jd rt plan_data'
                         (plan_data' \<noteq> PNone) w5)"
    using plan_and_answer_repair
            [where client = client and w = w and loads = loads and d = d and err = err
               and plan_raw = plan_raw]
          assms a
    by (simp split: sum.splits prod.splits)
  show ?thesis
  proof (cases res)
    case (Inl e)
    then show ?thesis unfolding eq using w5 by simp
  next
    case (Inr r')
    obtain d' err' where r': "r' = (d', err')" by (cases r')
    show ?thesis
    proof (cases "truthy d'")
      case True
      obtain out w' where s: "save_and_answer client MODEL args role it jd rt d' (d' \<noteq> PNone) w5 = (out, w')"
        by (cases "save_and_answer client MODEL args role it jd rt d' (d' \<noteq> PNone) w5")
      obtain suf where c: "console w' = console w5 @ suf"
        using save_and_answer_console [of client MODEL args role it jd rt d' "d' \<noteq> PNone" w5] s
        by auto
      from save_and_answer_world [OF s] c show ?thesis
        unfolding eq Inr r' using True s w5 by auto
    next
      case False
      then show ?thesis unfolding eq Inr r' using w5 by simp
    qed
  qed
qed

lemma plan_and_answer_repair_failed:
  assumes "client (requests w) (planner_request MODEL args role it jd rt) = Inr plan_raw"
      and "snd (try_parse_json_once loads plan_raw) = Inr (d, err)"
      and "\<not> truthy d"
      and "client (requests w @ [planner_request MODEL args role it jd rt])
             (repair_request MODEL args plan_raw) = Inr repaired"
      and "snd (try_parse_json_once loads repaired) = Inr (d', err')"
      and "\<not> truthy d'"
  shows "fst (plan_and_answer loads client MODEL args role it jd rt w) = Returned
       \<and> requests (snd (plan_and_answer loads client MODEL args role it jd rt w))
           = requests w @ [planner_request MODEL args role it jd rt,
                           repair_request MODEL args plan_raw]
       \<and> files (snd (plan_and_answer loads client MODEL args role it jd rt w)) = files w
       \<and> console (snd (plan_and_answer loads client MODEL args role it jd rt w))
           = console w @
             [[CHR 0x0A] @ ''[Chain 1] Creating plan...'' @ [CHR 0x0A],
              ''[Chain 1] Plan JSON parse failed. Attempting a one-time repair...'' @ [CHR 0x0A],
              ''Plan repair failed.'' @ [CHR 0x0A],
              (''Repair attempt failed. Raw repair output:'' @ [CHR 0x0A] @ repaired
                 @ [CHR 0x0A, CHR 0x0A] @ ''Parse error: '' @ str_opt err') @ [CHR 0x0A],
              ([CHR 0x0A] @ ''Raw plan output:'' @ [CHR 0x0A] @ '' '' @ plan_raw) @ [CHR 0x0A]]"
proof -
  let ?w4 = "world_at_repair loads MODEL args role it jd rt plan_raw w"
  obtain res w5 where a: "attempt_model_repair loads client MODEL plan_raw
                            (temperature args) (top_p args) (max_tokens args) ?w4 = (res, w5)"
    by (cases "attempt_model_repair loads client MODEL plan_raw
                 (temperature args) (top_p args) (max_tokens args) ?w4")
  have w5: "requests w5 = requests w @ [planner_request MODEL args role it jd rt,
                                        repair_request MODEL args plan_raw]"
           "console w5 = console ?w4" "files w5 = files w"
    using attempt_model_repair_world [OF a] by simp_all
  have "fst (attempt_model_repair loads client MODEL plan_raw
               (temperature args) (top_p args) (max_tokens args) ?w4) =
          Inr (PNone, Some (''Repair attempt failed. Raw repair output:'' @ [CHR 0x0A] @ repaired
                              @ [CHR 0x0A, CHR 0x0A] @ ''Parse error: '' @ str_opt err'))"
    using attempt_model_repair_result
            [where client = client and w = ?w4 and loads = loads and MODEL = MODEL
               and broken = plan_raw and t = "temperature args" and p = "top_p args"
               and k = "max_tokens args" and repaired = repaired and d = d' and err = err']
          assms(4,5,6)
    by simp
  then have res: "res = Inr (PNone, Some (''Repair attempt failed. Raw repair output:'' @ [CHR 0x0A] @ repaired
                              @ [CHR 0x0A, CHR 0x0A] @ ''Parse error: '' @ str_opt err'))"
    using a by simp
  have "plan_and_answer loads client MODEL args role it jd rt w =
          (Returned,
           print ([CHR 0x0A] @ ''Raw plan output:'' @ [CHR 0x0A] @ '' '' @ plan_raw)
             (print (''Repair attempt failed. Raw repair output:'' @ [CHR 0x0A] @ repaired
                       @ [CHR 0x0A, CHR 0x0A] @ ''Parse error: '' @ str_opt err')
                (print ''Plan repair failed.'' w5)))"
    using plan_and_answer_repair
            [where client = client and w = w and loads = loads and d = d and err = err
               and plan_raw = plan_raw]
          assms(1,2,3) a res
    by simp
  then show ?thesis
    using w5 by simp
qed

lemma is_plan_record_truthy: "is_plan_record v \<Longrightarrow> truthy v"
  by (cases v) (auto simp add: is_plan_record_def split: option.splits)

subsection \<open>The claims about a run\<close>

text \<open>
  Claim C6. Whatever the service, the decoder and the command line: when the key is set and one
  of the four collected values is empty (each is trimmed when collected, so a blank line
  gives an empty value), \<open>main\<close> returns after printing that all inputs are required,
  without a request and without a file.
\<close>

theorem missing_input_halts:
  assumes "api_key env \<noteq> None" and "api_key env \<noteq> Some []"
      and "fst (collect_inputs stdin initial_world) = Inr (role, it, jd, rt)"
      and "role = [] \<or> it = [] \<or> jd = [] \<or> rt = []"
  shows "fst (main loads client env args stdin) = Returned
       \<and> requests (snd (main loads client env args stdin)) = []
       \<and> files (snd (main loads client env args stdin)) = []
       \<and> last (console (snd (main loads client env args stdin)))
           = ''Error: All inputs are required.'' @ [CHR 0x0A]"
proof -
  have "main loads client env args stdin =
          (Returned, print ''Error: All inputs are required.'' (world_at_planning stdin))"
    using main_with_key [OF assms(1,2), of loads client args stdin] assms(3,4) by auto
  then show ?thesis by simp
qed

theorem missing_input_halts_witness:
  "fst (main json_loads (scripted []) example_env example_args blank_title_stdin) = Returned
   \<and> requests (snd (main json_loads (scripted []) example_env example_args blank_title_stdin)) = []
   \<and> files (snd (main json_loads (scripted []) example_env example_args blank_title_stdin)) = []
   \<and> last (console (snd (main json_loads (scripted []) example_env example_args blank_title_stdin)))
       = ''Error: All inputs are required.'' @ [CHR 0x0A]"
proof -
  have h1: "api_key example_env \<noteq> None" by (simp add: example_env_def)
  have h2: "api_key example_env \<noteq> Some []" by (simp add: example_env_def)
  have h3: "fst (collect_inputs blank_title_stdin initial_world)
              = Inr ([], ''Hiring Manager'', ''Build and run payment APIs.'', ''Five years of Python.'')"
    by code_simp
  have h4: "([] :: string) = [] \<or> ''Hiring Manager'' = [] \<or> ''Build and run payment APIs.'' = []
              \<or> ''Five years of Python.'' = []"
    by simp
  show ?thesis
    by (rule missing_input_halts [OF h1 h2 h3 h4])
qed

text \<open>
  Claim C7. A run that reaches planning, whose planning reply parses to data that is not
  true and whose repair reply does too (a parse failure gives \<open>None\<close> as data), returns
  after the repair request: no answering request, no file, and the diagnostics as the last
  three things printed.
\<close>

theorem repair_failure_halts_before_answering:
  assumes "reaches_planning env stdin role it jd rt"
      and "client [] (planner_request (model_name env) args role it jd rt) = Inr plan_raw"
      and "snd (try_parse_json_once loads plan_raw) = Inr (d, err)"
      and "\<not> truthy d"
      and "client [planner_request (model_name env) args role it jd rt]
             (repair_request (model_name env) args plan_raw) = Inr repaired"
      and "snd (try_parse_json_once loads repaired) = Inr (d', err')"
      and "\<not> truthy d'"
  shows "fst (main loads client env args stdin) = Returned
       \<and> requests (snd (main loads client env args stdin))
           = [planner_request (model_name env) args role it jd rt,
              repair_request (model_name env) args plan_raw]
       \<and> files (snd (main loads client env args stdin)) = []
       \<and> (\<exists>pre. console (snd (main loads client env args stdin)) =
                  pre @ [''Plan repair failed.'' @ [CHR 0x0A],
                         (''Repair attempt failed. Raw repair output:'' @ [CHR 0x0A] @ repaired
                            @ [CHR 0x0A, CHR 0x0A] @ ''Parse error: '' @ str_opt err') @ [CHR 0x0A],
                         ([CHR 0x0A] @ ''Raw plan output:'' @ [CHR 0x0A] @ '' '' @ plan_raw) @ [CHR 0x0A]])"
proof -
  have m: "main loads client env args stdin =
             plan_and_answer loads client (model_name env) args role it jd rt (world_at_planning stdin)"
    using assms(1) by (rule main_reaches_planning)
  have "fst (plan_and_answer loads client (model_name env) args role it jd rt (world_at_planning stdin)) = Returned
       \<and> requests (snd (plan_and_answer loads client (model_name env) args role it jd rt (world_at_planning stdin)))
           = requests (world_at_planning stdin) @ [planner_request (model_name env) args role it jd rt,
                           repair_request (model_name env) args plan_raw]
       \<and> files (snd (plan_and_answer loads client (model_name env) args role it jd rt (world_at_planning stdin)))
           = files (world_at_planning stdin)
       \<and> console (snd (plan_and_answer loads client (model_name env) args role it jd rt (world_at_planning stdin)))
           = console (world_at_planning stdin) @
             [[CHR 0x0A] @ ''[Chain 1] Creating plan...'' @ [CHR 0x0A],
              ''[Chain 1] Plan JSON parse failed. Attempting a one-time repair...'' @ [CHR 0x0A],
              ''Plan repair failed.'' @ [CHR 0x0A],
              (''Repair attempt failed. Raw repair output:'' @ [CHR 0x0A] @ repaired
                 @ [CHR 0x0A, CHR 0x0A] @ ''Parse error: '' @ str_opt err') @ [CHR 0x0A],
              ([CHR 0x0A] @ ''Raw plan output:'' @ [CHR 0x0A] @ '' '' @ plan_raw) @ [CHR 0x0A]]"
    using plan_and_answer_repair_failed
            [where client = client and w = "world_at_planning stdin" and loads = loads
               and MODEL = "model_name env" and args = args and role = role and it = it
               and jd = jd and rt = rt and plan_raw = plan_raw and d = d and err = err
               and repaired = repaired and d' = d' and err' = err']
          assms(2-7)
    by simp
  then show ?thesis
    unfolding m by simp
qed

theorem repair_failure_halts_before_answering_witness:
  "fst (main json_loads (scripted [''I cannot produce a plan.'', ''Sorry, still no JSON.''])
          example_env example_args example_stdin) = Returned
   \<and> requests (snd (main json_loads (scripted [''I cannot produce a plan.'', ''Sorry, still no JSON.''])
                       example_env example_args example_stdin))
       = [planner_request (model_name example_env) example_args ''Backend Engineer'' ''Hiring Manager''
            ''Build and run payment APIs.'' ''Five years of Python.'',
          repair_request (model_name example_env) example_args ''I cannot produce a plan.'']
   \<and> files (snd (main json_loads (scripted [''I cannot produce a plan.'', ''Sorry, still no JSON.''])
                    example_env example_args example_stdin)) = []"
proof -
  let ?client = "scripted [''I cannot produce a plan.'', ''Sorry, still no JSON.'']"
  let ?P = "planner_request (model_name example_env) example_args ''Backend Engineer'' ''Hiring Manager''
              ''Build and run payment APIs.'' ''Five years of Python.''"
  have h1: "reaches_planning example_env example_stdin ''Backend Engineer'' ''Hiring Manager''
              ''Build and run payment APIs.'' ''Five years of Python.''"
    by code_simp
  have h2: "?client [] ?P = Inr ''I cannot produce a plan.''"
    by (simp add: scripted_def)
  have h3: "snd (try_parse_json_once json_loads ''I cannot produce a plan.'')
              = Inr (PNone, Some ''JSON parsing failed: Expecting value: line 1 column 1 (char 0)'')"
    by code_simp
  have h4: "\<not> truthy PNone" by simp
  have h5: "?client [?P] (repair_request (model_name example_env) example_args ''I cannot produce a plan.'')
              = Inr ''Sorry, still no JSON.''"
    by (simp add: scripted_def)
  have h6: "snd (try_parse_json_once json_loads ''Sorry, still no JSON.'')
              = Inr (PNone, Some ''JSON parsing failed: Expecting value: line 1 column 1 (char 0)'')"
    by code_simp
  from repair_failure_halts_before_answering
         [where loads = json_loads and client = ?client and env = example_env
            and args = example_args and stdin = example_stdin, OF h1 h2 h3 h4 h5 h6 h4]
  show ?thesis by blast
qed

text \<open>
  Claim C1. No run issues more than one repair request. A run that reaches planning and whose
  planning reply fails to parse issues exactly one; and when the repair reply fails to
  parse too, the run returns with the planning request and that one repair request as all
  it has sent.
\<close>

theorem repair_escalation_at_most_once:
  "length (repair_requests (snd (main loads client env args stdin))) \<le> 1
   \<and> (\<forall>role it jd rt plan_raw err.
         reaches_planning env stdin role it jd rt
         \<and> client [] (planner_request (model_name env) args role it jd rt) = Inr plan_raw
         \<and> snd (try_parse_json_once loads plan_raw) = Inr (PNone, Some err)
         \<longrightarrow>
           repair_requests (snd (main loads client env args stdin))
             = [repair_request (model_name env) args plan_raw]
           \<and> (\<forall>repaired err'.
                 client [planner_request (model_name env) args role it jd rt]
                   (repair_request (model_name env) args plan_raw) = Inr repaired
                 \<and> snd (try_parse_json_once loads repaired) = Inr (PNone, Some err')
                 \<longrightarrow>
                   fst (main loads client env args stdin) = Returned
                   \<and> requests (snd (main loads client env args stdin))
                       = [planner_request (model_name env) args role it jd rt,
                          repair_request (model_name env) args plan_raw]))"
proof (intro conjI allI impI)
  show "length (repair_requests (snd (main loads client env args stdin))) \<le> 1"
    by (rule main_repair_bound)
next
  fix role it jd rt plan_raw err
  assume a: "reaches_planning env stdin role it jd rt
         \<and> client [] (planner_request (model_name env) args role it jd rt) = Inr plan_raw
         \<and> snd (try_parse_json_once loads plan_raw) = Inr (PNone, Some err)"
  have m: "main loads client env args stdin =
             plan_and_answer loads client (model_name env) args role it jd rt (world_at_planning stdin)"
    using a by (intro main_reaches_planning) simp
  show "repair_requests (snd (main loads client env args stdin))
          = [repair_request (model_name env) args plan_raw]"
    using plan_and_answer_repair_path
            [where client = client and w = "world_at_planning stdin" and loads = loads
               and MODEL = "model_name env" and args = args and role = role and it = it
               and jd = jd and rt = rt and plan_raw = plan_raw and d = PNone and err = "Some err"]
          a
    unfolding m by (auto simp add: repair_requests_def system_prompts_differ)
  fix repaired err'
  assume b: "client [planner_request (model_name env) args role it jd rt]
                   (repair_request (model_name env) args plan_raw) = Inr repaired
                 \<and> snd (try_parse_json_once loads repaired) = Inr (PNone, Some err')"
  have r: "fst (plan_and_answer loads client (model_name env) args role it jd rt (world_at_planning stdin)) = Returned
       \<and> requests (snd (plan_and_answer loads client (model_name env) args role it jd rt (world_at_planning stdin)))
           = requests (world_at_planning stdin) @ [planner_request (model_name env) args role it jd rt,
                           repair_request (model_name env) args plan_raw]"
    using plan_and_answer_repair_failed
            [where client = client and w = "world_at_planning stdin" and loads = loads
               and MODEL = "model_name env" and args = args and role = role and it = it
               and jd = jd and rt = rt and plan_raw = plan_raw and d = PNone and err = "Some err"
               and repaired = repaired and d' = PNone and err' = "Some err'"]
          a b
    by simp
  show "fst (main loads client env args stdin) = Returned"
    unfolding m using r by simp
  show "requests (snd (main loads client env args stdin))
          = [planner_request (model_name env) args role it jd rt,
             repair_request (model_name env) args plan_raw]"
    unfolding m using r by simp
qed

theorem repair_escalation_at_most_once_witness:
  "length (repair_requests (snd (main json_loads (scripted [''Plan: none.'', ''No JSON, sorry.''])
                                   example_env example_args example_stdin))) \<le> 1
   \<and> repair_requests (snd (main json_loads (scripted [''Plan: none.'', ''No JSON, sorry.''])
                              example_env example_args example_stdin))
       = [repair_request (model_name example_env) example_args ''Plan: none.'']
   \<and> fst (main json_loads (scripted [''Plan: none.'', ''No JSON, sorry.''])
            example_env example_args example_stdin) = Returned
   \<and> requests (snd (main json_loads (scripted [''Plan: none.'', ''No JSON, sorry.''])
                       example_env example_args example_stdin))
       = [planner_request (model_name example_env) example_args ''Backend Engineer'' ''Hiring Manager''
            ''Build and run payment APIs.'' ''Five years of Python.'',
          repair_request (model_name example_env) example_args ''Plan: none.'']"
proof -
  let ?client = "scripted [''Plan: none.'', ''No JSON, sorry.'']"
  let ?P = "planner_request (model_name example_env) example_args ''Backend Engineer'' ''Hiring Manager''
              ''Build and run payment APIs.'' ''Five years of Python.''"
  have h1: "reaches_planning example_env example_stdin ''Backend Engineer'' ''Hiring Manager''
              ''Build and run payment APIs.'' ''Five years of Python.''"
    by code_simp
  have h2: "?client [] ?P = Inr ''Plan: none.''"
    by (simp add: scripted_def)
  have h3: "snd (try_parse_json_once json_loads ''Plan: none.'')
              = Inr (PNone, Some ''JSON parsing failed: Expecting value: line 1 column 1 (char 0)'')"
    by code_simp
  have h5: "?client [?P] (repair_request (model_name example_env) example_args ''Plan: none.'')
              = Inr ''No JSON, sorry.''"
    by (simp add: scripted_def)
  have h6: "snd (try_parse_json_once json_loads ''No JSON, sorry.'')
              = Inr (PNone, Some ''JSON parsing failed: Expecting value: line 1 column 1 (char 0)'')"
    by code_simp
  note t = repair_escalation_at_most_once
             [where loads = json_loads and client = ?client and env = example_env
                and args = example_args and stdin = example_stdin]
  from t have bound: "length (repair_requests (snd (main json_loads ?client example_env example_args example_stdin))) \<le> 1"
    by (rule conjunct1)
  from t have rest: "\<forall>role it jd rt plan_raw err.
         reaches_planning example_env example_stdin role it jd rt
         \<and> ?client [] (planner_request (model_name example_env) example_args role it jd rt) = Inr plan_raw
         \<and> snd (try_parse_json_once json_loads plan_raw) = Inr (PNone, Some err)
         \<longrightarrow>
           repair_requests (snd (main json_loads ?client example_env example_args example_stdin))
             = [repair_request (model_name example_env) example_args plan_raw]
           \<and> (\<forall>repaired err'.
                 ?client [planner_request (model_name example_env) example_args role it jd rt]
                   (repair_request (model_name example_env) example_args plan_raw) = Inr repaired
                 \<and> snd (try_parse_json_once json_loads repaired) = Inr (PNone, Some err')
                 \<longrightarrow>
                   fst (main json_loads ?client example_env example_args example_stdin) = Returned
                   \<and> requests (snd (main json_loads ?client example_env example_args example_stdin))
                       = [planner_request (model_name example_env) example_args role it jd rt,
                          repair_request (model_name example_env) example_args plan_raw])"
    by (rule conjunct2)
  from rest h1 h2 h3 have one:
    "repair_requests (snd (main json_loads ?client example_env example_args example_stdin))
       = [repair_request (model_name example_env) example_args ''Plan: none.'']
     \<and> (\<forall>repaired err'.
           ?client [?P] (repair_request (model_name example_env) example_args ''Plan: none.'') = Inr repaired
           \<and> snd (try_parse_json_once json_loads repaired) = Inr (PNone, Some err')
           \<longrightarrow>
             fst (main json_loads ?client example_env example_args example_stdin) = Returned
             \<and> requests (snd (main json_loads ?client example_env example_args example_stdin))
                 = [?P, repair_request (model_name example_env) example_args ''Plan: none.''])"
    by blast
  from one h5 h6 have halt:
    "fst (main json_loads ?client example_env example_args example_stdin) = Returned
     \<and> requests (snd (main json_loads ?client example_env example_args example_stdin))
         = [?P, repair_request (model_name example_env) example_args ''Plan: none.'']"
    by blast
  from bound one halt show ?thesis by blast
qed

text \<open>
  Claim C10. What decides a stage is the truth value of the data, not the absence of an error.
  The six values named are not true. When the planning reply decodes, without error, to a
  value that is not true, the run announces a parse failure and issues the repair request;
  when the repair reply decodes to such a value too, the run ends as a failed repair, whose
  message names \<open>None\<close> as the parse error; and \<open>attempt_model_repair\<close> itself reports the
  failure for such a reply.
\<close>

theorem falsy_value_counts_as_parse_failure:
  "\<not> truthy (PDict []) \<and> \<not> truthy (PList []) \<and> \<not> truthy PNone \<and> \<not> truthy (PInt 0)
   \<and> \<not> truthy (PBool False) \<and> \<not> truthy (PStr [])
   \<and> (\<forall>role it jd rt plan_raw v.
         reaches_planning env stdin role it jd rt
         \<and> client [] (planner_request (model_name env) args role it jd rt) = Inr plan_raw
         \<and> loads plan_raw = Inr v \<and> \<not> truthy v
         \<longrightarrow>
           repair_requests (snd (main loads client env args stdin))
             = [repair_request (model_name env) args plan_raw]
           \<and> (''[Chain 1] Plan JSON parse failed. Attempting a one-time repair...'' @ [CHR 0x0A])
               \<in> set (console (snd (main loads client env args stdin)))
           \<and> (\<forall>repaired v'.
                 client [planner_request (model_name env) args role it jd rt]
                   (repair_request (model_name env) args plan_raw) = Inr repaired
                 \<and> loads repaired = Inr v' \<and> \<not> truthy v'
                 \<longrightarrow>
                   fst (main loads client env args stdin) = Returned
                   \<and> files (snd (main loads client env args stdin)) = []
                   \<and> (''Plan repair failed.'' @ [CHR 0x0A])
                       \<in> set (console (snd (main loads client env args stdin)))
                   \<and> ((''Repair attempt failed. Raw repair output:'' @ [CHR 0x0A] @ repaired
                          @ [CHR 0x0A, CHR 0x0A] @ ''Parse error: '' @ ''None'') @ [CHR 0x0A])
                       \<in> set (console (snd (main loads client env args stdin)))))
   \<and> (\<forall>service MODEL broken t p k w repaired v'.
         service (requests w) (repair_request MODEL \<lparr>temperature = t, top_p = p, max_tokens = k\<rparr> broken)
           = Inr repaired
         \<and> loads repaired = Inr v' \<and> \<not> truthy v'
         \<longrightarrow>
           fst (attempt_model_repair loads service MODEL broken t p k w)
             = Inr (PNone, Some (''Repair attempt failed. Raw repair output:'' @ [CHR 0x0A] @ repaired
                                  @ [CHR 0x0A, CHR 0x0A] @ ''Parse error: '' @ ''None'')))"
proof (intro conjI allI impI)
  show "\<not> truthy (PDict [])" "\<not> truthy (PList [])" "\<not> truthy PNone" "\<not> truthy (PInt 0)"
       "\<not> truthy (PBool False)" "\<not> truthy (PStr [])"
    by simp_all
next
  fix role it jd rt plan_raw v
  assume a: "reaches_planning env stdin role it jd rt
         \<and> client [] (planner_request (model_name env) args role it jd rt) = Inr plan_raw
         \<and> loads plan_raw = Inr v \<and> \<not> truthy v"
  have m: "main loads client env args stdin =
             plan_and_answer loads client (model_name env) args role it jd rt (world_at_planning stdin)"
    using a by (intro main_reaches_planning) simp
  have p: "snd (try_parse_json_once loads plan_raw) = Inr (v, None)"
    using a by (simp add: try_parse_decoded)
  obtain tail suf where path:
    "requests (snd (plan_and_answer loads client (model_name env) args role it jd rt (world_at_planning stdin)))
       = requests (world_at_planning stdin)
         @ [planner_request (model_name env) args role it jd rt,
            repair_request (model_name env) args plan_raw] @ tail"
    "tail = [] \<or> (\<exists>d'. tail = [answer_request (model_name env) args role it jd rt d'])"
    "console (snd (plan_and_answer loads client (model_name env) args role it jd rt (world_at_planning stdin)))
       = console (world_at_repair loads (model_name env) args role it jd rt plan_raw (world_at_planning stdin)) @ suf"
    using plan_and_answer_repair_path
            [where client = client and w = "world_at_planning stdin" and loads = loads
               and MODEL = "model_name env" and args = args and role = role and it = it
               and jd = jd and rt = rt and plan_raw = plan_raw and d = v and err = None]
          a p
    by auto
  show "repair_requests (snd (main loads client env args stdin))
          = [repair_request (model_name env) args plan_raw]"
    unfolding m using path(1,2) by (auto simp add: repair_requests_def system_prompts_differ)
  show "(''[Chain 1] Plan JSON parse failed. Attempting a one-time repair...'' @ [CHR 0x0A])
          \<in> set (console (snd (main loads client env args stdin)))"
    unfolding m path(3) by simp
  fix repaired v'
  assume b: "client [planner_request (model_name env) args role it jd rt]
                   (repair_request (model_name env) args plan_raw) = Inr repaired
                 \<and> loads repaired = Inr v' \<and> \<not> truthy v'"
  have p': "snd (try_parse_json_once loads repaired) = Inr (v', None)"
    using b by (simp add: try_parse_decoded)
  have r: "fst (plan_and_answer loads client (model_name env) args role it jd rt (world_at_planning stdin)) = Returned
       \<and> requests (snd (plan_and_answer loads client (model_name env) args role it jd rt (world_at_planning stdin)))
           = requests (world_at_planning stdin) @ [planner_request (model_name env) args role it jd rt,
                           repair_request (model_name env) args plan_raw]
       \<and> files (snd (plan_and_answer loads client (model_name env) args role it jd rt (world_at_planning stdin)))
           = files (world_at_planning stdin)
       \<and> console (snd (plan_and_answer loads client (model_name env) args role it jd rt (world_at_planning stdin)))
           = console (world_at_planning stdin) @
             [[CHR 0x0A] @ ''[Chain 1] Creating plan...'' @ [CHR 0x0A],
              ''[Chain 1] Plan JSON parse failed. Attempting a one-time repair...'' @ [CHR 0x0A],
              ''Plan repair failed.'' @ [CHR 0x0A],
              (''Repair attempt failed. Raw repair output:'' @ [CHR 0x0A] @ repaired
                 @ [CHR 0x0A, CHR 0x0A] @ ''Parse error: '' @ str_opt None) @ [CHR 0x0A],
              ([CHR 0x0A] @ ''Raw plan output:'' @ [CHR 0x0A] @ '' '' @ plan_raw) @ [CHR 0x0A]]"
    using plan_and_answer_repair_failed
            [where client = client and w = "world_at_planning stdin" and loads = loads
               and MODEL = "model_name env" and args = args and role = role and it = it
               and jd = jd and rt = rt and plan_raw = plan_raw and d = v and err = None
               and repaired = repaired and d' = v' and err' = None]
          a b p p'
    by simp
  show "fst (main loads client env args stdin) = Returned"
    unfolding m using r by simp
  show "files (snd (main loads client env args stdin)) = []"
    unfolding m using r by simp
  show "(''Plan repair failed.'' @ [CHR 0x0A]) \<in> set (console (snd (main loads client env args stdin)))"
    unfolding m using r by simp
  show "((''Repair attempt failed. Raw repair output:'' @ [CHR 0x0A] @ repaired
            @ [CHR 0x0A, CHR 0x0A] @ ''Parse error: '' @ ''None'') @ [CHR 0x0A])
          \<in> set (console (snd (main loads client env args stdin)))"
    unfolding m using r by simp
next
  fix service :: service and MODEL broken t p k and w :: world and repaired v'
  assume c: "service (requests w) (repair_request MODEL \<lparr>temperature = t, top_p = p, max_tokens = k\<rparr> broken)
           = Inr repaired
         \<and> loads repaired = Inr v' \<and> \<not> truthy v'"
  have "snd (try_parse_json_once loads repaired) = Inr (v', None)"
    using c by (simp add: try_parse_decoded)
  then show "fst (attempt_model_repair loads service MODEL broken t p k w)
             = Inr (PNone, Some (''Repair attempt failed. Raw repair output:'' @ [CHR 0x0A] @ repaired
                                  @ [CHR 0x0A, CHR 0x0A] @ ''Parse error: '' @ ''None''))"
    using attempt_model_repair_result
            [where client = service and w = w and loads = loads and MODEL = MODEL
               and broken = broken and t = t and p = p and k = k and repaired = repaired
               and d = v' and err = None]
          c
    by simp
qed

theorem falsy_value_counts_as_parse_failure_witness:
  "repair_requests (snd (main json_loads (scripted [''{}'', ''[]'']) example_env example_args example_stdin))
     = [repair_request (model_name example_env) example_args ''{}'']
   \<and> fst (main json_loads (scripted [''{}'', ''[]'']) example_env example_args example_stdin) = Returned
   \<and> files (snd (main json_loads (scripted [''{}'', ''[]'']) example_env example_args example_stdin)) = []
   \<and> (''Plan repair failed.'' @ [CHR 0x0A])
       \<in> set (console (snd (main json_loads (scripted [''{}'', ''[]'']) example_env example_args example_stdin)))"
proof -
  let ?client = "scripted [''{}'', ''[]'']"
  let ?P = "planner_request (model_name example_env) example_args ''Backend Engineer'' ''Hiring Manager''
              ''Build and run payment APIs.'' ''Five years of Python.''"
  let ?run = "main json_loads ?client example_env example_args example_stdin"
  have h1: "reaches_planning example_env example_stdin ''Backend Engineer'' ''Hiring Manager''
              ''Build and run payment APIs.'' ''Five years of Python.''"
    by code_simp
  have h2: "?client [] ?P = Inr ''{}''"
    by (simp add: scripted_def)
  have h3: "json_loads ''{}'' = Inr (PDict [])"
    by code_simp
  have h4: "\<not> truthy (PDict [])" by simp
  have h5: "?client [?P] (repair_request (model_name example_env) example_args ''{}'') = Inr ''[]''"
    by (simp add: scripted_def)
  have h6: "json_loads ''[]'' = Inr (PList [])"
    by code_simp
  have h7: "\<not> truthy (PList [])" by simp
  note t = falsy_value_counts_as_parse_failure
             [where loads = json_loads and client = ?client and env = example_env
                and args = example_args and stdin = example_stdin]
  from t have run: "\<forall>role it jd rt plan_raw v.
         reaches_planning example_env example_stdin role it jd rt
         \<and> ?client [] (planner_request (model_name example_env) example_args role it jd rt) = Inr plan_raw
         \<and> json_loads plan_raw = Inr v \<and> \<not> truthy v
         \<longrightarrow>
           repair_requests (snd ?run) = [repair_request (model_name example_env) example_args plan_raw]
           \<and> (''[Chain 1] Plan JSON parse failed. Attempting a one-time repair...'' @ [CHR 0x0A])
               \<in> set (console (snd ?run))
           \<and> (\<forall>repaired v'.
                 ?client [planner_request (model_name example_env) example_args role it jd rt]
                   (repair_request (model_name example_env) example_args plan_raw) = Inr repaired
                 \<and> json_loads repaired = Inr v' \<and> \<not> truthy v'
                 \<longrightarrow>
                   fst ?run = Returned
                   \<and> files (snd ?run) = []
                   \<and> (''Plan repair failed.'' @ [CHR 0x0A]) \<in> set (console (snd ?run))
                   \<and> ((''Repair attempt failed. Raw repair output:'' @ [CHR 0x0A] @ repaired
                          @ [CHR 0x0A, CHR 0x0A] @ ''Parse error: '' @ ''None'') @ [CHR 0x0A])
                       \<in> set (console (snd ?run)))"
    by blast
  from run h1 h2 h3 h4 have one:
    "repair_requests (snd ?run) = [repair_request (model_name example_env) example_args ''{}'']
     \<and> (\<forall>repaired v'.
           ?client [?P] (repair_request (model_name example_env) example_args ''{}'') = Inr repaired
           \<and> json_loads repaired = Inr v' \<and> \<not> truthy v'
           \<longrightarrow>
             fst ?run = Returned
             \<and> files (snd ?run) = []
             \<and> (''Plan repair failed.'' @ [CHR 0x0A]) \<in> set (console (snd ?run))
             \<and> ((''Repair attempt failed. Raw repair output:'' @ [CHR 0x0A] @ repaired
                    @ [CHR 0x0A, CHR 0x0A] @ ''Parse error: '' @ ''None'') @ [CHR 0x0A])
                 \<in> set (console (snd ?run)))"
    by blast
  from one h5 h6 h7 have two:
    "fst ?run = Returned \<and> files (snd ?run) = []
     \<and> (''Plan repair failed.'' @ [CHR 0x0A]) \<in> set (console (snd ?run))"
    by blast
  from one two show ?thesis by blast
qed

end
